theory Spec2Isabelle
  imports Complex_Main
begin

section \<open>JavaScript values as server.js handles them\<close>

text \<open>
  The two handlers of \<^verbatim>\<open>src/backend/server.js\<close> work on untyped documents: the request
  body, the upstream payload and the reply are all plain JavaScript values. A number is an
  IEEE 754 double: \<open>NaN\<close>, an infinity, or \<open>Num x\<close> with \<open>x\<close> the real value of a finite
  double (the sign of a zero is not kept: JSON writes both zeros as 0). An object is the
  list of its own properties in enumeration order (what \<^verbatim>\<open>Object.entries\<close> walks), with
  pairwise different keys.
\<close>

datatype number = NaN | Num real | PosInf | NegInf

datatype jsval =
    JUndefined
  | JNull
  | JBool bool
  | JNum number
  | JStr string
  | JArr "jsval list"
  | JObj "(string \<times> jsval) list"

text \<open>
  The error axios rejects with, of which the handlers read \<^verbatim>\<open>response\<close> (status and
  data, absent when no reply came), \<^verbatim>\<open>code\<close> and \<^verbatim>\<open>message\<close>.
\<close>

datatype axios_error = AxiosError "(nat \<times> jsval) option" "string option" string

fun reason_message :: "axios_error \<Rightarrow> string" where
  "reason_message (AxiosError response code message) = message"

text \<open>What a \<^verbatim>\<open>try\<close> block can catch: a \<open>TypeError\<close> raised by the language, or the
  rejection of an awaited axios call.\<close>

datatype error = TypeError | Upstream axios_error

text \<open>A settled promise, as \<^verbatim>\<open>await\<close> and \<^verbatim>\<open>Promise.allSettled\<close> hand it over; a
  fulfilled axios call carries \<^verbatim>\<open>response.data\<close>.\<close>

datatype settled = Fulfilled jsval | Rejected axios_error

text \<open>What \<^verbatim>\<open>res.status(n).json(v)\<close> sends: the status and the value given to
  \<^verbatim>\<open>json\<close>, before serialisation.\<close>

record reply =
  res_status :: nat
  res_json :: jsval

text \<open>
  What the handlers take from their surroundings: the configured key
  (\<^verbatim>\<open>process.env.GOOGLE_API_KEY\<close>, a string or undefined), the clock
  (\<^verbatim>\<open>new Date().toISOString()\<close>), and the parts of the language runtime whose
  algorithms are not in the repository: whether the URL parser accepts a string once it has
  read its scheme, the number a string denotes, the number an array or object converts to,
  and the text a number, array or object converts to (\<open>None\<close>: the conversion raises a
  TypeError).
\<close>

record env =
  PAGESPEED_API_KEY :: jsval
  now :: string
  URL_parses :: "string \<Rightarrow> bool"
  StringToNumber :: "string \<Rightarrow> number"
  ObjectToNumber :: "jsval \<Rightarrow> number option"
  OtherToString :: "jsval \<Rightarrow> string option"

text \<open>The run of a handler: the parameter objects it gave to \<^verbatim>\<open>axios.get\<close>, in order, and
  what it sent (\<open>Inl\<close>: an exception left the handler).\<close>

record exchange =
  calls :: "jsval list"
  sent :: "error + reply"

text \<open>The three ways a straight-line block ends.\<close>

datatype 'a flow = Throw error | Return reply | Next 'a

subsection \<open>Operators\<close>

definition bind :: "error + 'a \<Rightarrow> ('a \<Rightarrow> error + 'b) \<Rightarrow> error + 'b" where
  "bind m f = (case m of Inl e \<Rightarrow> Inl e | Inr x \<Rightarrow> f x)"

definition nullish :: "jsval \<Rightarrow> bool" where
  "nullish v = (v = JUndefined \<or> v = JNull)"

text \<open>\<^verbatim>\<open>!v\<close> is \<open>\<not> truthy v\<close>.\<close>

fun truthy :: "jsval \<Rightarrow> bool" where
  "truthy JUndefined = False"
| "truthy JNull = False"
| "truthy (JBool b) = b"
| "truthy (JNum NaN) = False"
| "truthy (JNum (Num x)) = (x \<noteq> 0)"
| "truthy (JNum PosInf) = True"
| "truthy (JNum NegInf) = True"
| "truthy (JStr s) = (s \<noteq> [])"
| "truthy (JArr xs) = True"
| "truthy (JObj kvs) = True"

text \<open>
  \<^verbatim>\<open>v.k\<close> and \<^verbatim>\<open>v[k]\<close> for the property names server.js reads (\<^verbatim>\<open>url\<close>,
  \<^verbatim>\<open>strategy\<close>, \<^verbatim>\<open>categories\<close>, \<^verbatim>\<open>lighthouseResult\<close>, \<^verbatim>\<open>loadingExperience\<close>,
  \<^verbatim>\<open>audits\<close>, \<^verbatim>\<open>performance\<close>, \<^verbatim>\<open>score\<close>, \<^verbatim>\<open>displayValue\<close>, \<^verbatim>\<open>numericValue\<close>,
  \<^verbatim>\<open>details\<close>, \<^verbatim>\<open>overallSavingsMs\<close>, \<^verbatim>\<open>title\<close>, \<^verbatim>\<open>description\<close>, \<^verbatim>\<open>data\<close>,
  \<^verbatim>\<open>error\<close>, \<^verbatim>\<open>message\<close>, \<^verbatim>\<open>errors\<close> and the audit keys): reading from undefined or
  null raises, an object gives its own property or undefined, and no string, number,
  boolean or array has a property of one of these names.
\<close>

fun get :: "jsval \<Rightarrow> string \<Rightarrow> error + jsval" where
  "get JUndefined k = Inl TypeError"
| "get JNull k = Inl TypeError"
| "get (JObj kvs) k = Inr (case map_of kvs k of None \<Rightarrow> JUndefined | Some v \<Rightarrow> v)"
| "get v k = Inr JUndefined"

text \<open>\<^verbatim>\<open>v?.k\<close>\<close>

definition opt_get :: "jsval \<Rightarrow> string \<Rightarrow> jsval" where
  "opt_get v k = (case get v k of Inl e \<Rightarrow> JUndefined | Inr x \<Rightarrow> x)"

text \<open>\<^verbatim>\<open>a || b\<close>\<close>

definition or_else :: "jsval \<Rightarrow> jsval \<Rightarrow> jsval" where
  "or_else a b = (if truthy a then a else b)"

text \<open>\<^verbatim>\<open>obj[k] = v\<close> on an object literal: an existing property keeps its place and takes
  the new value, a new one goes last.\<close>

fun assign :: "(string \<times> jsval) list \<Rightarrow> string \<Rightarrow> jsval \<Rightarrow> (string \<times> jsval) list" where
  "assign [] k v = [(k, v)]"
| "assign ((k', v') # kvs) k v = (if k' = k then (k, v) # kvs else (k', v') # assign kvs k v)"

fun ToNumber :: "env \<Rightarrow> jsval \<Rightarrow> error + number" where
  "ToNumber e JUndefined = Inr NaN"
| "ToNumber e JNull = Inr (Num 0)"
| "ToNumber e (JBool b) = Inr (Num (if b then 1 else 0))"
| "ToNumber e (JNum n) = Inr n"
| "ToNumber e (JStr s) = Inr (StringToNumber e s)"
| "ToNumber e v = (case ObjectToNumber e v of None \<Rightarrow> Inl TypeError | Some n \<Rightarrow> Inr n)"

fun ToString :: "env \<Rightarrow> jsval \<Rightarrow> error + string" where
  "ToString e (JStr s) = Inr s"
| "ToString e JUndefined = Inr ''undefined''"
| "ToString e JNull = Inr ''null''"
| "ToString e (JBool b) = Inr (if b then ''true'' else ''false'')"
| "ToString e v = (case OtherToString e v of None \<Rightarrow> Inl TypeError | Some s \<Rightarrow> Inr s)"

subsection \<open>Double arithmetic\<close>

text \<open>
  The binary exponent of a positive real within the range of the doubles: the \<open>k\<close> from
  \<open>-1022\<close> to \<open>1023\<close> with \<open>2 powi k \<le> a < 2 powi (k + 1)\<close>, the least for a smaller
  \<open>a\<close> (the subnormal range) and the greatest for a larger one. It is searched for upwards
  from 0 when \<open>1 \<le> a\<close> and downwards otherwise.
\<close>

function exponent_up :: "int \<Rightarrow> real \<Rightarrow> int" where
  "exponent_up k a = (if k < 1023 \<and> 2 powi (k + 1) \<le> a then exponent_up (k + 1) a else k)"
  by pat_completeness auto
termination
  by (relation "measure (\<lambda>(k, a). nat (1023 - k))") auto

function exponent_down :: "int \<Rightarrow> real \<Rightarrow> int" where
  "exponent_down k a = (if - 1022 < k \<and> a < 2 powi k then exponent_down (k - 1) a else k)"
  by pat_completeness auto
termination
  by (relation "measure (\<lambda>(k, a). nat (k + 1022))") auto

declare exponent_up.simps [simp del] exponent_down.simps [simp del]

definition exponent :: "real \<Rightarrow> int" where
  "exponent a = (if 1 \<le> a then exponent_up 0 a else exponent_down 0 a)"

text \<open>The nearest integer, a tie going to the even one.\<close>

definition round_even :: "real \<Rightarrow> int" where
  "round_even z =
     (let f = \<lfloor>z\<rfloor>; d = z - of_int f
      in if d < 1 / 2 then f else if 1 / 2 < d then f + 1 else if even f then f else f + 1)"

text \<open>
  The double a real is rounded to (round to nearest, ties to even, 53 bits of
  significand): the nearest multiple of \<open>2 powi (k - 52)\<close> for the exponent \<open>k\<close> of the real,
  and an infinity from \<open>2 powi 1024\<close> on. This is the result of an arithmetic operation
  whose exact result is the real, and the value of a JSON number literal.
\<close>

definition double :: "real \<Rightarrow> number" where
  "double x =
     (if x = 0 then Num 0
      else let q = 2 powi (exponent \<bar>x\<bar> - 52); y = of_int (round_even (x / q)) * q
           in if 2 powi 1024 \<le> y then PosInf else if y \<le> - (2 powi 1024) then NegInf else Num y)"

text \<open>\<^verbatim>\<open>a * b\<close> and \<^verbatim>\<open>a > b\<close> on numbers.\<close>

fun times_num :: "number \<Rightarrow> number \<Rightarrow> number" where
  "times_num NaN b = NaN"
| "times_num a NaN = NaN"
| "times_num (Num x) (Num y) = double (x * y)"
| "times_num (Num x) PosInf = (if x = 0 then NaN else if 0 < x then PosInf else NegInf)"
| "times_num (Num x) NegInf = (if x = 0 then NaN else if 0 < x then NegInf else PosInf)"
| "times_num PosInf (Num y) = (if y = 0 then NaN else if 0 < y then PosInf else NegInf)"
| "times_num NegInf (Num y) = (if y = 0 then NaN else if 0 < y then NegInf else PosInf)"
| "times_num PosInf PosInf = PosInf"
| "times_num PosInf NegInf = NegInf"
| "times_num NegInf PosInf = NegInf"
| "times_num NegInf NegInf = PosInf"

fun greater_num :: "number \<Rightarrow> number \<Rightarrow> bool" where
  "greater_num NaN b = False"
| "greater_num a NaN = False"
| "greater_num (Num x) (Num y) = (y < x)"
| "greater_num (Num x) PosInf = False"
| "greater_num (Num x) NegInf = True"
| "greater_num PosInf b = (b \<noteq> PosInf)"
| "greater_num NegInf b = False"

text \<open>\<^verbatim>\<open>Math.round\<close>: the nearest integer, a tie going up; the result is exact.\<close>

fun Math_round :: "number \<Rightarrow> number" where
  "Math_round NaN = NaN"
| "Math_round (Num x) = Num (of_int \<lfloor>x + 1 / 2\<rfloor>)"
| "Math_round PosInf = PosInf"
| "Math_round NegInf = NegInf"

text \<open>The decimal text of an array index.\<close>

fun decimal :: "nat \<Rightarrow> string" where
  "decimal n =
     (if n < 10 then [char_of (48 + n)] else decimal (n div 10) @ [char_of (48 + n mod 10)])"

text \<open>\<^verbatim>\<open>Object.entries\<close>\<close>

fun Object_entries :: "jsval \<Rightarrow> error + (string \<times> jsval) list" where
  "Object_entries JUndefined = Inl TypeError"
| "Object_entries JNull = Inl TypeError"
| "Object_entries (JObj kvs) = Inr kvs"
| "Object_entries (JArr xs) = Inr (zip (map decimal [0..<length xs]) xs)"
| "Object_entries (JStr s) = Inr (zip (map decimal [0..<length s]) (map (\<lambda>c. JStr [c]) s))"
| "Object_entries v = Inr []"

section \<open>server.js\<close>

subsection \<open>isValidUrl\<close>

text \<open>
  \<^verbatim>\<open>new URL(string)\<close> with no base, after the URL Standard. The argument is converted
  to a string. The parser sets aside leading and trailing control characters and spaces
  and all tabs and newlines; in its scheme start state and scheme state it reads a letter
  followed by letters, digits, plus, minus or dot up to a colon; on anything else it goes to
  its no-scheme state, where it fails for want of a base. What it does with a string once
  the scheme is read is \<open>URL_parses\<close> of the environment.
\<close>

definition ascii_alpha :: "char \<Rightarrow> bool" where
  "ascii_alpha c = (let n = (of_char c :: nat) in (65 \<le> n \<and> n \<le> 90) \<or> (97 \<le> n \<and> n \<le> 122))"

definition scheme_char :: "char \<Rightarrow> bool" where
  "scheme_char c = (let n = (of_char c :: nat) in
     ascii_alpha c \<or> (48 \<le> n \<and> n \<le> 57) \<or> c = CHR ''+'' \<or> c = CHR ''-'' \<or> c = CHR ''.'')"

text \<open>The string has a scheme; a scheme-less string is one that has none.\<close>

definition has_scheme :: "string \<Rightarrow> bool" where
  "has_scheme s =
     (case dropWhile (\<lambda>c. (of_char c :: nat) \<le> 32)
             (filter (\<lambda>c. (of_char c :: nat) \<notin> set [9, 10, 13]) s) of
        [] \<Rightarrow> False
      | c # cs \<Rightarrow>
          ascii_alpha c \<and>
          (case dropWhile scheme_char cs of [] \<Rightarrow> False | d # ds \<Rightarrow> d = CHR '':''))"

text \<open>Lines 27 to 34: the \<^verbatim>\<open>try\<close> around the constructor turns every failure into
  \<^verbatim>\<open>false\<close>.\<close>

definition isValidUrl :: "env \<Rightarrow> jsval \<Rightarrow> bool" where
  "isValidUrl e string =
     (case ToString e string of
        Inl err \<Rightarrow> False
      | Inr s \<Rightarrow> has_scheme s \<and> URL_parses e s)"

subsection \<open>POST /api/pagespeed\<close>

text \<open>Lines 39 to 85: destructuring with defaults, the three validation returns, and the
  parameter object with its \<^verbatim>\<open>forEach\<close> over the categories.\<close>

definition request_params :: "env \<Rightarrow> jsval \<Rightarrow> (jsval \<times> jsval \<times> jsval) flow" where
  \<open>request_params e body =
     (case get body ''url'' of
        Inl err \<Rightarrow> Throw err
      | Inr url \<Rightarrow>
          let strategy = (case opt_get body ''strategy'' of
                            JUndefined \<Rightarrow> JStr ''mobile'' | s \<Rightarrow> s);
              categories = (case opt_get body ''categories'' of
                              JUndefined \<Rightarrow> JArr [JStr ''performance''] | c \<Rightarrow> c)
          in if \<not> truthy url then
               Return \<lparr>res_status = 400, res_json = JObj
                 [(''error'', JStr ''URL is required''),
                  (''message'', JStr ''Please provide a valid URL to analyze'')]\<rparr>
             else if \<not> isValidUrl e url then
               Return \<lparr>res_status = 400, res_json = JObj
                 [(''error'', JStr ''Invalid URL''),
                  (''message'', JStr
                     ''Please provide a valid URL format (including http:// or https://)'')]\<rparr>
             else if strategy \<notin> set [JStr ''mobile'', JStr ''desktop''] then
               Return \<lparr>res_status = 400, res_json = JObj
                 [(''error'', JStr ''Invalid strategy''),
                  (''message'', JStr ''Strategy must be either "mobile" or "desktop"'')]\<rparr>
             else
               let params = [(''url'', url), (''strategy'', strategy)];
                   params = (if truthy (PAGESPEED_API_KEY e)
                             then assign params ''key'' (PAGESPEED_API_KEY e) else params)
               in (case categories of
                     JArr cs \<Rightarrow>
                       Next (url, strategy,
                         JObj (fold (\<lambda>category ps. assign ps ''category'' category) cs params))
                   | other \<Rightarrow> Throw TypeError))\<close>

text \<open>Lines 119 to 129: the loop over \<^verbatim>\<open>Object.entries(metrics)\<close>, pushing onto
  \<^verbatim>\<open>opportunities\<close>.\<close>

fun opportunities_loop :: "env \<Rightarrow> (string \<times> jsval) list \<Rightarrow> jsval list \<Rightarrow> error + jsval list" where
  "opportunities_loop e [] opportunities = Inr opportunities"
| "opportunities_loop e ((key, audit) # rest) opportunities =
     bind (get audit ''details'') (\<lambda>details.
       if \<not> truthy details then opportunities_loop e rest opportunities
       else
         bind (get details ''overallSavingsMs'') (\<lambda>overallSavingsMs.
         bind (ToNumber e overallSavingsMs) (\<lambda>n.
           if greater_num n (Num 100) then
             bind (get audit ''title'') (\<lambda>title.
             bind (get audit ''description'') (\<lambda>description.
             bind (get audit ''displayValue'') (\<lambda>displayValue.
               opportunities_loop e rest (opportunities @
                 [JObj [(''title'', title),
                        (''description'', description),
                        (''savings'', overallSavingsMs),
                        (''displayValue'', displayValue)]]))))
           else opportunities_loop e rest opportunities)))"

text \<open>Lines 138 to 162 build five objects of the same shape, one per entry of
  \<^verbatim>\<open>coreWebVitals\<close>.\<close>

definition metric :: "jsval \<Rightarrow> error + jsval" where
  "metric audit =
     bind (get audit ''score'') (\<lambda>score.
     bind (get audit ''displayValue'') (\<lambda>displayValue.
     bind (get audit ''numericValue'') (\<lambda>numericValue.
       Inr (JObj [(''score'', score), (''displayValue'', displayValue),
                  (''numericValue'', numericValue)]))))"

text \<open>Lines 98 to 167: from \<^verbatim>\<open>response.data\<close> to \<^verbatim>\<open>result\<close>.\<close>

definition extract_result :: "env \<Rightarrow> jsval \<Rightarrow> jsval \<Rightarrow> jsval \<Rightarrow> error + jsval" where
  "extract_result e url strategy data =
     bind (get data ''lighthouseResult'') (\<lambda>lighthouseResult.
     bind (get data ''loadingExperience'') (\<lambda>loadingExperience.
     bind (get lighthouseResult ''audits'') (\<lambda>metrics.
     bind (get lighthouseResult ''categories'') (\<lambda>categories.
     bind (get categories ''performance'') (\<lambda>performance.
     bind (get performance ''score'') (\<lambda>score.
     bind (ToNumber e score) (\<lambda>n.
     let performanceScore = times_num n (Num 100) in
     bind (get metrics ''first-contentful-paint'') (\<lambda>firstContentfulPaint.
     bind (get metrics ''largest-contentful-paint'') (\<lambda>largestContentfulPaint.
     bind (get metrics ''max-potential-fid'') (\<lambda>firstInputDelay.
     bind (get metrics ''cumulative-layout-shift'') (\<lambda>cumulativeLayoutShift.
     bind (get metrics ''speed-index'') (\<lambda>speedIndex.
     bind (get metrics ''total-blocking-time'') (\<lambda>totalBlockingTime.
     bind (Object_entries metrics) (\<lambda>entries.
     bind (opportunities_loop e entries []) (\<lambda>opportunities.
     bind (metric firstContentfulPaint) (\<lambda>m1.
     bind (metric largestContentfulPaint) (\<lambda>m2.
     bind (metric speedIndex) (\<lambda>m3.
     bind (metric totalBlockingTime) (\<lambda>m4.
     bind (metric cumulativeLayoutShift) (\<lambda>m5.
     bind (get lighthouseResult ''audits'') (\<lambda>audits.
     bind (get audits ''final-screenshot'') (\<lambda>finalScreenshot.
       Inr (JObj
         [(''url'', url),
          (''strategy'', strategy),
          (''timestamp'', JStr (now e)),
          (''performanceScore'', JNum (Math_round performanceScore)),
          (''metrics'', JObj
             [(''firstContentfulPaint'', m1),
              (''largestContentfulPaint'', m2),
              (''speedIndex'', m3),
              (''totalBlockingTime'', m4),
              (''cumulativeLayoutShift'', m5)]),
          (''opportunities'', JArr (take 5 opportunities)),
          (''fieldData'', or_else loadingExperience JNull),
          (''screenshot'',
             or_else (opt_get (opt_get finalScreenshot ''details'') ''data'') JNull)])))))))))))))))))))))))"

text \<open>Lines 174 to 224: the \<^verbatim>\<open>catch\<close> block.\<close>

definition pagespeed_catch :: "env \<Rightarrow> error \<Rightarrow> error + reply" where
  "pagespeed_catch e err =
     (case err of
        Upstream (AxiosError (Some (status, errorData)) code msg) \<Rightarrow>
          let message = or_else (opt_get (opt_get errorData ''error'') ''message'')
                          (JStr ''API request failed'')
          in if status = 400 then
               bind (ToString e message) (\<lambda>m.
                 Inr \<lparr>res_status = 400, res_json = JObj
                   [(''error'', JStr ''Bad Request''),
                    (''message'', JStr (''Google API Error: '' @ m)),
                    (''details'', or_else (opt_get (opt_get errorData ''error'') ''errors'') JNull)]\<rparr>)
             else if status = 403 then
               Inr \<lparr>res_status = 403, res_json = JObj
                 [(''error'', JStr ''API Key Error''),
                  (''message'', JStr
                     ''Invalid or missing Google API key. Please check your API key configuration.'')]\<rparr>
             else if status = 429 then
               Inr \<lparr>res_status = 429, res_json = JObj
                 [(''error'', JStr ''Rate Limited''),
                  (''message'', JStr ''Too many requests to Google API. Please try again later.'')]\<rparr>
             else
               bind (ToString e message) (\<lambda>m.
                 Inr \<lparr>res_status = status, res_json = JObj
                   [(''error'', JStr ''API Error''),
                    (''message'', JStr (''Google API Error: '' @ m))]\<rparr>)
      | Upstream (AxiosError None code msg) \<Rightarrow>
          if code = Some ''ECONNABORTED'' then
            Inr \<lparr>res_status = 408, res_json = JObj
              [(''error'', JStr ''Timeout''),
               (''message'', JStr ''Request timed out. The website might be slow to respond.'')]\<rparr>
          else
            Inr \<lparr>res_status = 500, res_json = JObj
              [(''error'', JStr ''Internal Server Error''),
               (''message'', JStr ''An unexpected error occurred'')]\<rparr>
      | TypeError \<Rightarrow>
          Inr \<lparr>res_status = 500, res_json = JObj
            [(''error'', JStr ''Internal Server Error''),
             (''message'', JStr ''An unexpected error occurred'')]\<rparr>)"

text \<open>The handler of lines 37 to 225; \<open>axios_get\<close> is the upstream, from the parameter
  object to the settled call.\<close>

definition pagespeed :: "env \<Rightarrow> (jsval \<Rightarrow> settled) \<Rightarrow> jsval \<Rightarrow> exchange" where
  "pagespeed e axios_get body =
     (case request_params e body of
        Throw err \<Rightarrow> \<lparr>calls = [], sent = pagespeed_catch e err\<rparr>
      | Return r \<Rightarrow> \<lparr>calls = [], sent = Inr r\<rparr>
      | Next (url, strategy, params) \<Rightarrow>
          \<lparr>calls = [params],
           sent = (case axios_get params of
                     Rejected reason \<Rightarrow> pagespeed_catch e (Upstream reason)
                   | Fulfilled data \<Rightarrow>
                       (case extract_result e url strategy data of
                          Inl err \<Rightarrow> pagespeed_catch e err
                        | Inr result \<Rightarrow>
                            Inr \<lparr>res_status = 200, res_json = JObj
                              [(''success'', JBool True), (''data'', result)]\<rparr>))\<rparr>)"

subsection \<open>POST /api/pagespeed/compare\<close>

text \<open>Lines 253 to 265 for the mobile call and lines 267 to 279 for the desktop call are
  the same block: from one entry of \<^verbatim>\<open>Promise.allSettled\<close> to the entry of
  \<^verbatim>\<open>results\<close>.\<close>

definition settled_result :: "env \<Rightarrow> settled \<Rightarrow> error + jsval" where
  "settled_result e response =
     (case response of
        Fulfilled data \<Rightarrow>
          bind (get data ''lighthouseResult'') (\<lambda>lighthouseResult.
          bind (get lighthouseResult ''categories'') (\<lambda>categories.
          bind (get categories ''performance'') (\<lambda>performance.
          bind (get performance ''score'') (\<lambda>score.
          bind (ToNumber e score) (\<lambda>n.
          let score100 = times_num n (Num 100) in
            Inr (JObj [(''score'', JNum (Math_round score100)),
                       (''status'', JStr ''success'')]))))))
      | Rejected reason \<Rightarrow>
          Inr (JObj [(''score'', JNull),
                     (''status'', JStr ''failed''),
                     (''error'', JStr (reason_message reason))]))"

text \<open>The handler of lines 228 to 295. Both calls are started before either is awaited,
  and \<^verbatim>\<open>Promise.allSettled\<close> gives the handler both settled calls at once.\<close>

definition compare :: "env \<Rightarrow> (jsval \<Rightarrow> settled) \<Rightarrow> jsval \<Rightarrow> exchange" where
  "compare e axios_get body =
     (let failed = \<lparr>res_status = 500, res_json = JObj
            [(''error'', JStr ''Internal Server Error''),
             (''message'', JStr ''Failed to compare mobile and desktop scores'')]\<rparr>
      in case get body ''url'' of
        Inl err \<Rightarrow> \<lparr>calls = [], sent = Inr failed\<rparr>
      | Inr url \<Rightarrow>
          if \<not> truthy url \<or> \<not> isValidUrl e url then
            \<lparr>calls = [], sent = Inr \<lparr>res_status = 400, res_json = JObj
               [(''error'', JStr ''Invalid URL''),
                (''message'', JStr ''Please provide a valid URL'')]\<rparr>\<rparr>
          else
            let mobileParams = JObj [(''url'', url), (''strategy'', JStr ''mobile''),
                  (''key'', PAGESPEED_API_KEY e), (''category'', JStr ''performance'')];
                desktopParams = JObj [(''url'', url), (''strategy'', JStr ''desktop''),
                  (''key'', PAGESPEED_API_KEY e), (''category'', JStr ''performance'')];
                mobileResponse = axios_get mobileParams;
                desktopResponse = axios_get desktopParams
            in \<lparr>calls = [mobileParams, desktopParams],
                sent = Inr
                  (case bind (settled_result e mobileResponse) (\<lambda>mobile.
                        bind (settled_result e desktopResponse) (\<lambda>desktop.
                          Inr (assign (assign [] ''mobile'' mobile) ''desktop'' desktop))) of
                     Inl err \<Rightarrow> failed
                   | Inr results \<Rightarrow>
                       \<lparr>res_status = 200, res_json = JObj
                          [(''success'', JBool True),
                           (''url'', url),
                           (''timestamp'', JStr (now e)),
                           (''data'', JObj results)]\<rparr>)\<rparr>)"

section \<open>Notions the properties are stated with\<close>

text \<open>\<^verbatim>\<open>v.k1.k2...\<close>, raising where the code would.\<close>

definition path :: "jsval \<Rightarrow> string list \<Rightarrow> error + jsval" where
  "path v ks = fold (\<lambda>k m. bind m (\<lambda>x. get x k)) ks (Inr v)"

text \<open>A run of the analysis that called upstream once, got \<open>data\<close> back and answered with
  the report \<open>result\<close>.\<close>

definition analyzed :: "env \<Rightarrow> (jsval \<Rightarrow> settled) \<Rightarrow> jsval \<Rightarrow> jsval \<Rightarrow> jsval \<Rightarrow> bool" where
  "analyzed e axios_get body data result =
     (case calls (pagespeed e axios_get body) of
        [params] \<Rightarrow>
          axios_get params = Fulfilled data \<and>
          sent (pagespeed e axios_get body) =
            Inr \<lparr>res_status = 200, res_json = JObj
                   [(''success'', JBool True), (''data'', result)]\<rparr>
      | other \<Rightarrow> False)"

text \<open>The five metrics of the report: the name in \<^verbatim>\<open>result.metrics\<close> and the key of the
  upstream audit it is read from.\<close>

definition core_metrics :: "(string \<times> string) list" where
  "core_metrics =
     [(''firstContentfulPaint'', ''first-contentful-paint''),
      (''largestContentfulPaint'', ''largest-contentful-paint''),
      (''speedIndex'', ''speed-index''),
      (''totalBlockingTime'', ''total-blocking-time''),
      (''cumulativeLayoutShift'', ''cumulative-layout-shift'')]"

text \<open>The entry of \<^verbatim>\<open>result.metrics\<close> made from a metric audit.\<close>

definition MetricSample :: "jsval \<Rightarrow> jsval" where
  "MetricSample audit =
     JObj [(''score'', opt_get audit ''score''),
           (''displayValue'', opt_get audit ''displayValue''),
           (''numericValue'', opt_get audit ''numericValue'')]"

text \<open>The entry saves strictly more than 100 ms: its \<^verbatim>\<open>details.overallSavingsMs\<close> is a
  number greater than 100.\<close>

definition over_100 :: "jsval \<Rightarrow> bool" where
  "over_100 audit =
     (case opt_get (opt_get audit ''details'') ''overallSavingsMs'' of
        JNum (Num x) \<Rightarrow> 100 < x
      | JNum PosInf \<Rightarrow> True
      | other \<Rightarrow> False)"

text \<open>An audit entry as the upstream sends it: not null, and its
  \<^verbatim>\<open>details.overallSavingsMs\<close>, when present, is not a string, an array or an object (whose
  comparison with 100 would be decided by the runtime conversions).\<close>

definition typed_audit :: "jsval \<Rightarrow> bool" where
  "typed_audit audit =
     (\<not> nullish audit \<and>
      (case opt_get (opt_get audit ''details'') ''overallSavingsMs'' of
         JStr s \<Rightarrow> False
       | JArr xs \<Rightarrow> False
       | JObj kvs \<Rightarrow> False
       | other \<Rightarrow> True))"

text \<open>The entry of \<^verbatim>\<open>opportunities\<close> made from an audit entry.\<close>

definition Opportunity :: "jsval \<Rightarrow> jsval" where
  "Opportunity audit =
     JObj [(''title'', opt_get audit ''title''),
           (''description'', opt_get audit ''description''),
           (''savings'', opt_get (opt_get audit ''details'') ''overallSavingsMs''),
           (''displayValue'', opt_get audit ''displayValue'')]"

text \<open>An audits collection with which the extraction goes through: the five metric audits
  are there and every entry is well-typed.\<close>

definition complete_audits :: "(string \<times> jsval) list \<Rightarrow> bool" where
  "complete_audits audits =
     (list_all (\<lambda>(name, key). case map_of audits key of None \<Rightarrow> False | Some v \<Rightarrow> \<not> nullish v)
        core_metrics \<and>
      list_all (\<lambda>(key, audit). typed_audit audit) audits)"


text \<open>How one upstream call of a comparison ends: it succeeds with a category score, or it
  fails with a message.\<close>

datatype upstream_outcome = Succeeds real | Fails string

text \<open>The settled call has that outcome.\<close>

fun settles_as :: "settled \<Rightarrow> upstream_outcome \<Rightarrow> bool" where
  "settles_as (Fulfilled data) (Succeeds s) =
     (path data [''lighthouseResult'', ''categories'', ''performance'', ''score'']
        = Inr (JNum (Num s)))"
| "settles_as (Rejected reason) (Fails m) = (reason_message reason = m)"
| "settles_as response outcome = False"

text \<open>What the comparison is to report for an outcome: for a success the score times
  100, as doubles are multiplied, rounded by \<^verbatim>\<open>Math.round\<close>.\<close>

fun reported :: "upstream_outcome \<Rightarrow> jsval" where
  "reported (Succeeds s) =
     JObj [(''score'', JNum (Math_round (times_num (Num s) (Num 100)))),
           (''status'', JStr ''success'')]"
| "reported (Fails m) =
     JObj [(''score'', JNull), (''status'', JStr ''failed''), (''error'', JStr m)]"

text \<open>A call fulfilled with a payload in which the category score cannot be reached:
  \<^verbatim>\<open>lighthouseResult\<close>, its \<^verbatim>\<open>categories\<close> or their \<^verbatim>\<open>performance\<close> is absent or null.\<close>

fun lacks_score :: "settled \<Rightarrow> bool" where
  "lacks_score (Fulfilled data) =
     (case path data [''lighthouseResult'', ''categories'', ''performance'', ''score''] of
        Inl err \<Rightarrow> True
      | Inr score \<Rightarrow> False)"
| "lacks_score (Rejected reason) = False"

text \<open>The parameter object of the comparison's call for one strategy.\<close>

definition compare_params :: "env \<Rightarrow> jsval \<Rightarrow> string \<Rightarrow> jsval" where
  "compare_params e url strategy =
     JObj [(''url'', url), (''strategy'', JStr strategy),
           (''key'', PAGESPEED_API_KEY e), (''category'', JStr ''performance'')]"

text \<open>A computation that raises nothing but a TypeError.\<close>

definition raises_only_TypeError :: "error + 'a \<Rightarrow> bool" where
  "raises_only_TypeError m = (case m of Inl err \<Rightarrow> err = TypeError | Inr x \<Rightarrow> True)"

subsection \<open>Closed instances\<close>

text \<open>
  An environment for closed instances: no key is configured and the URL parser accepts
  every string that has a scheme. The conversions of strings, arrays and objects are not
  consulted on the inputs used.
\<close>

definition fixture :: env where
  "fixture =
     \<lparr>PAGESPEED_API_KEY = JUndefined,
      now = ''2024-01-01T00:00:00.000Z'',
      URL_parses = (\<lambda>s. True),
      StringToNumber = (\<lambda>s. NaN),
      ObjectToNumber = (\<lambda>v. Some NaN),
      OtherToString = (\<lambda>v. Some [])\<rparr>"

text \<open>Upstreams: every call times out; every call is answered with the same payload; every
  call is rejected with the same error; the mobile call settles in one way and every other
  call in another; the call for one strategy is answered with a payload and every other call
  times out.\<close>

definition timed_out :: "jsval \<Rightarrow> settled" where
  "timed_out params =
     Rejected (AxiosError None (Some ''ECONNABORTED'') ''timeout of 30000ms exceeded'')"

definition replies :: "jsval \<Rightarrow> jsval \<Rightarrow> settled" where
  "replies data params = Fulfilled data"

definition rejects :: "axios_error \<Rightarrow> jsval \<Rightarrow> settled" where
  "rejects reason params = Rejected reason"

definition per_strategy :: "settled \<Rightarrow> settled \<Rightarrow> jsval \<Rightarrow> settled" where
  "per_strategy mobile desktop params =
     (if get params ''strategy'' = Inr (JStr ''mobile'') then mobile else desktop)"

definition only_succeeds :: "string \<Rightarrow> jsval \<Rightarrow> jsval \<Rightarrow> settled" where
  "only_succeeds strategy data params =
     (if get params ''strategy'' = Inr (JStr strategy) then Fulfilled data
      else timed_out params)"

text \<open>A request body.\<close>

definition sample_body :: jsval where
  "sample_body = JObj [(''url'', JStr ''https://example.com'')]"

text \<open>A payload: the five metric audits (total-blocking-time with a null score) and seven
  audits saving 50, 150, 900, 101, 99, 5000 and 200 ms, in this order.\<close>

definition sample_metric :: "jsval \<Rightarrow> string \<Rightarrow> real \<Rightarrow> jsval" where
  "sample_metric score displayValue numericValue =
     JObj [(''score'', score), (''displayValue'', JStr displayValue),
           (''numericValue'', JNum (Num numericValue))]"

definition sample_saving :: "string \<Rightarrow> real \<Rightarrow> jsval" where
  "sample_saving title ms =
     JObj [(''title'', JStr title), (''description'', JStr ''''),
           (''details'', JObj [(''overallSavingsMs'', JNum (Num ms))])]"

definition sample_audits :: "(string \<times> jsval) list" where
  "sample_audits =
     [(''first-contentful-paint'', sample_metric (JNum (Num (3 / 4))) ''1.2 s'' 1200),
      (''largest-contentful-paint'', sample_metric (JNum (Num (1 / 2))) ''3.4 s'' 3400),
      (''speed-index'', sample_metric (JNum (Num 1)) ''1.0 s'' 1000),
      (''total-blocking-time'', sample_metric JNull '''' 0),
      (''cumulative-layout-shift'', sample_metric (JNum (Num 0)) ''0.25'' (1 / 4)),
      (''a'', sample_saving ''a'' 50),
      (''b'', sample_saving ''b'' 150),
      (''c'', sample_saving ''c'' 900),
      (''d'', sample_saving ''d'' 101),
      (''e'', sample_saving ''e'' 99),
      (''f'', sample_saving ''f'' 5000),
      (''g'', sample_saving ''g'' 200)]"

definition sample_payload :: "jsval \<Rightarrow> (string \<times> jsval) list \<Rightarrow> jsval" where
  "sample_payload score audits =
     JObj [(''lighthouseResult'', JObj
       [(''categories'', JObj [(''performance'', JObj [(''score'', score)])]),
        (''audits'', JObj audits)])]"

section \<open>Facts about double arithmetic\<close>

lemma exponent_up_spec:
  "k \<le> 1023 \<Longrightarrow> 2 powi k \<le> a \<Longrightarrow>
   k \<le> exponent_up k a \<and> exponent_up k a \<le> 1023 \<and> 2 powi (exponent_up k a) \<le> a \<and>
   (exponent_up k a < 1023 \<longrightarrow> a < 2 powi (exponent_up k a + 1))"
proof (induction k a rule: exponent_up.induct)
  case (1 k a)
  show ?case
  proof (cases "k < 1023 \<and> 2 powi (k + 1) \<le> a")
    case True
    then have "exponent_up k a = exponent_up (k + 1) a"
      using exponent_up.simps [of k a] by simp
    with "1.IH" [OF True] True show ?thesis by auto
  next
    case False
    then have "exponent_up k a = k"
      using exponent_up.simps [of k a] by auto
    with False "1.prems" show ?thesis by auto
  qed
qed

lemma exponent_down_spec:
  "- 1022 \<le> k \<Longrightarrow> a < 2 powi (k + 1) \<Longrightarrow>
   - 1022 \<le> exponent_down k a \<and> exponent_down k a \<le> k \<and> a < 2 powi (exponent_down k a + 1) \<and>
   (- 1022 < exponent_down k a \<longrightarrow> 2 powi (exponent_down k a) \<le> a)"
proof (induction k a rule: exponent_down.induct)
  case (1 k a)
  show ?case
  proof (cases "- 1022 < k \<and> a < 2 powi k")
    case True
    then have "exponent_down k a = exponent_down (k - 1) a"
      using exponent_down.simps [of k a] by simp
    with "1.IH" [OF True] True show ?thesis by auto
  next
    case False
    then have "exponent_down k a = k"
      using exponent_down.simps [of k a] by auto
    with False "1.prems" show ?thesis by auto
  qed
qed

lemma exponent_spec:
  "- 1022 \<le> exponent a \<and> exponent a \<le> 1023 \<and>
   (- 1022 < exponent a \<longrightarrow> 2 powi (exponent a) \<le> a) \<and>
   (exponent a < 1023 \<longrightarrow> a < 2 powi (exponent a + 1))"
proof (cases "1 \<le> a")
  case True
  with exponent_up_spec [of 0 a] show ?thesis by (auto simp: exponent_def)
next
  case False
  with exponent_down_spec [of 0 a] show ?thesis by (auto simp: exponent_def)
qed

lemma exponent_eqI:
  assumes "2 powi k \<le> a" and "a < 2 powi (k + 1)" and "- 1022 \<le> k" and "k \<le> 1023"
  shows "exponent a = k"
proof (rule ccontr)
  assume ne: "exponent a \<noteq> k"
  note s = exponent_spec [of a]
  show False
  proof (cases "exponent a < k")
    case True
    with s assms have "a < 2 powi (exponent a + 1)" by auto
    also have "(2::real) powi (exponent a + 1) \<le> 2 powi k"
      using True by (intro power_int_increasing) auto
    finally show False using assms(1) by simp
  next
    case False
    with ne have g: "k < exponent a" by simp
    with s assms have "2 powi (exponent a) \<le> a" by auto
    moreover have "(2::real) powi (k + 1) \<le> 2 powi (exponent a)"
      using g by (intro power_int_increasing) auto
    ultimately show False using assms(2) by simp
  qed
qed



lemma double_eqI:
  assumes "x \<noteq> 0" and "2 powi k \<le> \<bar>x\<bar>" and "\<bar>x\<bar> < 2 powi (k + 1)"
    and "- 1022 \<le> k" and "k \<le> 1023"
    and "round_even (x / 2 powi (k - 52)) = n"
    and "y = of_int n * 2 powi (k - 52)"
    and "y < 2 powi 1024" and "- (2 powi 1024) < y"
  shows "double x = Num y"
  using assms exponent_eqI [of k "\<bar>x\<bar>"] by (simp add: double_def Let_def)






lemma double_9_10: "double (9 / 10) = Num (8106479329266893 / 2 ^ 53)"
  by (rule double_eqI [where k = "- 1" and n = 8106479329266893])
     (simp_all add: round_even_def Let_def power_int_minus_divide)

lemma times_9_10: "times_num (Num (8106479329266893 / 2 ^ 53)) (Num 100) = Num 90"
  unfolding times_num.simps
  by (rule double_eqI [where k = 6 and n = 6333186975989760])
     (simp_all add: round_even_def Let_def power_int_minus_divide)

lemma double_zero [simp]: "double 0 = Num 0"
  by (simp add: double_def)

section \<open>The operators and the extraction\<close>

lemma bind_sum_simps [simp]: "bind (Inl err) f = Inl err" "bind (Inr x) f = f x"
  by (simp_all add: bind_def)

lemma bind_eq_Inr: "bind m f = Inr y \<longleftrightarrow> (\<exists>x. m = Inr x \<and> f x = Inr y)"
  by (cases m) simp_all

lemma get_eq_Inr: "get v k = Inr x \<longleftrightarrow> \<not> nullish v \<and> x = opt_get v k"
  by (cases v) (auto simp: nullish_def opt_get_def)

lemma get_nullish: "nullish v \<Longrightarrow> get v k = Inl TypeError"
  by (cases v) (auto simp: nullish_def)

lemma get_not_nullish: "\<not> nullish v \<Longrightarrow> get v k = Inr (opt_get v k)"
  by (simp add: get_eq_Inr)

lemma opt_get_JObj: "opt_get (JObj kvs) k = (case map_of kvs k of None \<Rightarrow> JUndefined | Some v \<Rightarrow> v)"
  by (simp add: opt_get_def)

lemma metric_Inr:
  "metric audit = Inr m \<longleftrightarrow>
     \<not> nullish audit \<and>
     m = JObj [(''score'', opt_get audit ''score''),
               (''displayValue'', opt_get audit ''displayValue''),
               (''numericValue'', opt_get audit ''numericValue'')]"
  by (cases "nullish audit") (auto simp: metric_def get_not_nullish get_nullish)

lemma rot_bind:
  "raises_only_TypeError m \<Longrightarrow> (\<And>x. raises_only_TypeError (f x)) \<Longrightarrow> raises_only_TypeError (bind m f)"
  by (cases m) (simp_all add: raises_only_TypeError_def)

lemma rot_get: "raises_only_TypeError (get v k)"
  by (cases v) (simp_all add: raises_only_TypeError_def)

lemma rot_Inr: "raises_only_TypeError (Inr x)"
  by (simp add: raises_only_TypeError_def)

lemma rot_ToNumber: "raises_only_TypeError (ToNumber e v)"
  by (cases v) (simp_all add: raises_only_TypeError_def split: option.splits)

lemma rot_entries: "raises_only_TypeError (Object_entries v)"
  by (cases v) (simp_all add: raises_only_TypeError_def)

lemma rot_metric: "raises_only_TypeError (metric v)"
  unfolding metric_def by (intro rot_bind rot_get rot_Inr)

lemma rot_loop: "raises_only_TypeError (opportunities_loop e entries acc)"
proof (induction entries arbitrary: acc)
  case Nil
  show ?case by (simp add: rot_Inr)
next
  case (Cons entry entries)
  obtain key audit where entry: "entry = (key, audit)" by (cases entry)
  show ?case
    unfolding entry opportunities_loop.simps
    by (auto intro!: rot_bind rot_get rot_ToNumber simp: Cons.IH)
qed

lemma rot_extract: "raises_only_TypeError (extract_result e url strategy data)"
  unfolding extract_result_def Let_def
  by (intro rot_bind rot_get rot_ToNumber rot_entries rot_loop rot_metric rot_Inr)

lemma extract_result_Inl: "extract_result e url strategy data = Inl err \<Longrightarrow> err = TypeError"
  using rot_extract [of e url strategy data] by (simp add: raises_only_TypeError_def)

lemma loop_typed:
  "list_all (\<lambda>(k, a). typed_audit a) entries \<Longrightarrow>
   opportunities_loop e entries acc =
     Inr (acc @ map Opportunity (filter over_100 (map snd entries)))"
proof (induction entries arbitrary: acc)
  case Nil
  show ?case by simp
next
  case (Cons entry entries)
  obtain key audit where entry: "entry = (key, audit)" by (cases entry)
  from Cons.prems have typed: "typed_audit audit"
    and rest: "list_all (\<lambda>(k, a). typed_audit a) entries"
    by (simp_all add: entry)
  have IH: "\<And>acc. opportunities_loop e entries acc =
     Inr (acc @ map Opportunity (filter over_100 (map snd entries)))"
    using Cons.IH rest by blast
  from typed have nn: "\<not> nullish audit" by (simp add: typed_audit_def)
  define v where "v = opt_get (opt_get audit ''details'') ''overallSavingsMs''"
  have step: "opportunities_loop e ((key, audit) # entries) acc =
      (if truthy (opt_get audit ''details'')
       then bind (ToNumber e v) (\<lambda>n.
              if greater_num n (Num 100)
              then opportunities_loop e entries (acc @ [Opportunity audit])
              else opportunities_loop e entries acc)
       else opportunities_loop e entries acc)"
  proof (cases "truthy (opt_get audit ''details'')")
    case False
    with nn show ?thesis by (simp add: get_not_nullish)
  next
    case True
    then have "\<not> nullish (opt_get audit ''details'')" by (auto simp: nullish_def)
    with True nn show ?thesis by (simp add: get_not_nullish Opportunity_def v_def cong: if_cong)
  qed
  have falsy: "\<not> truthy (opt_get audit ''details'') \<Longrightarrow> v = JUndefined"
    unfolding v_def
    by (cases "opt_get audit ''details''") (auto simp: opt_get_def split: number.splits)
  have typed_v: "case v of JStr s \<Rightarrow> False | JArr xs \<Rightarrow> False | JObj kvs \<Rightarrow> False | other \<Rightarrow> True"
    using typed by (simp add: typed_audit_def v_def)
  have over: "over_100 audit =
      (case v of JNum (Num x) \<Rightarrow> 100 < x | JNum PosInf \<Rightarrow> True | other \<Rightarrow> False)"
    by (simp add: over_100_def v_def)
  show ?case
  proof (cases "truthy (opt_get audit ''details'')")
    case False
    then show ?thesis using falsy by (simp add: entry step over IH del: opportunities_loop.simps)
  next
    case True
    show ?thesis
    proof (cases v)
      case (JNum n)
      then show ?thesis using True
        by (cases n) (simp_all add: entry step over IH del: opportunities_loop.simps)
    qed (use typed_v True in \<open>simp_all add: entry step over IH del: opportunities_loop.simps\<close>)
  qed
qed

lemma bind_Inr_right [simp]: "bind m Inr = m"
  by (cases m) simp_all

lemma fold_get_Inl: "fold (\<lambda>k m. bind m (\<lambda>x. get x k)) ks (Inl err) = Inl err"
  by (induction ks) simp_all

lemma path_Nil [simp]: "path v [] = Inr v"
  by (simp add: path_def)

lemma path_Cons [simp]: "path v (k # ks) = bind (get v k) (\<lambda>x. path x ks)"
  by (cases "get v k") (simp_all add: path_def fold_get_Inl)

lemma metric_eq_Inr: "metric audit = Inr m \<longleftrightarrow> \<not> nullish audit \<and> m = MetricSample audit"
  by (simp add: metric_Inr MetricSample_def)

lemma Object_entries_Inr: "Object_entries v = Inr entries \<Longrightarrow> \<not> nullish v"
  by (cases v) (simp_all add: nullish_def)

lemma extract_result_Inr:
  assumes "extract_result e url strategy data = Inr r"
  defines "metrics \<equiv> opt_get (opt_get data ''lighthouseResult'') ''audits''"
  defines "score \<equiv> opt_get (opt_get (opt_get (opt_get data ''lighthouseResult'') ''categories'')
       ''performance'') ''score''"
  shows "\<exists>n entries opportunities.
    path data [''lighthouseResult'', ''audits''] = Inr metrics \<and>
    path data [''lighthouseResult'', ''categories'', ''performance'', ''score''] = Inr score \<and>
    ToNumber e score = Inr n \<and>
    Object_entries metrics = Inr entries \<and>
    opportunities_loop e entries [] = Inr opportunities \<and>
    \<not> nullish (opt_get metrics ''first-contentful-paint'') \<and>
    \<not> nullish (opt_get metrics ''largest-contentful-paint'') \<and>
    \<not> nullish (opt_get metrics ''speed-index'') \<and>
    \<not> nullish (opt_get metrics ''total-blocking-time'') \<and>
    \<not> nullish (opt_get metrics ''cumulative-layout-shift'') \<and>
    r = JObj
         [(''url'', url),
          (''strategy'', strategy),
          (''timestamp'', JStr (now e)),
          (''performanceScore'', JNum (Math_round (times_num n (Num 100)))),
          (''metrics'', JObj
             [(''firstContentfulPaint'', MetricSample (opt_get metrics ''first-contentful-paint'')),
              (''largestContentfulPaint'', MetricSample (opt_get metrics ''largest-contentful-paint'')),
              (''speedIndex'', MetricSample (opt_get metrics ''speed-index'')),
              (''totalBlockingTime'', MetricSample (opt_get metrics ''total-blocking-time'')),
              (''cumulativeLayoutShift'', MetricSample (opt_get metrics ''cumulative-layout-shift''))]),
          (''opportunities'', JArr (take 5 opportunities)),
          (''fieldData'', or_else (opt_get data ''loadingExperience'') JNull),
          (''screenshot'',
             or_else (opt_get (opt_get (opt_get metrics ''final-screenshot'') ''details'') ''data'') JNull)]"
  using assms(1) unfolding extract_result_def Let_def bind_eq_Inr metric_eq_Inr get_eq_Inr
  by (elim exE conjE) (simp add: get_not_nullish metrics_def score_def)

lemma metric_not_nullish: "\<not> nullish audit \<Longrightarrow> metric audit = Inr (MetricSample audit)"
  by (simp add: metric_eq_Inr)

lemma extract_result_complete:
  assumes audits: "path data [''lighthouseResult'', ''audits''] = Inr (JObj audits)"
    and complete: "complete_audits audits"
    and score: "path data [''lighthouseResult'', ''categories'', ''performance'', ''score''] = Inr score"
    and n: "ToNumber e score = Inr n"
  shows "\<exists>r. extract_result e url strategy data = Inr r \<and>
     get r ''performanceScore'' = Inr (JNum (Math_round (times_num n (Num 100))))"
proof -
  define metrics where "metrics = opt_get (opt_get data ''lighthouseResult'') ''audits''"
  from audits have d: "\<not> nullish data" and l: "\<not> nullish (opt_get data ''lighthouseResult'')"
    and m: "metrics = JObj audits"
    by (auto simp: bind_eq_Inr get_eq_Inr metrics_def)
  from score have c: "\<not> nullish (opt_get (opt_get data ''lighthouseResult'') ''categories'')"
    and p: "\<not> nullish (opt_get (opt_get (opt_get data ''lighthouseResult'') ''categories'') ''performance'')"
    and s: "opt_get (opt_get (opt_get (opt_get data ''lighthouseResult'') ''categories'') ''performance'') ''score'' = score"
    by (auto simp: bind_eq_Inr get_eq_Inr)
  from complete have keys:
    "\<not> nullish (opt_get metrics ''first-contentful-paint'')"
    "\<not> nullish (opt_get metrics ''largest-contentful-paint'')"
    "\<not> nullish (opt_get metrics ''speed-index'')"
    "\<not> nullish (opt_get metrics ''total-blocking-time'')"
    "\<not> nullish (opt_get metrics ''cumulative-layout-shift'')"
    unfolding m
    by (auto simp: complete_audits_def core_metrics_def opt_get_JObj nullish_def split: option.splits)
  from complete have loop: "opportunities_loop e audits [] =
      Inr (map Opportunity (filter over_100 (map snd audits)))"
    using loop_typed [of audits e "[]"] by (simp add: complete_audits_def)
  have nn: "\<not> nullish metrics" and entries: "Object_entries metrics = Inr audits"
    by (simp_all add: nullish_def m)
  have "extract_result e url strategy data = Inr (JObj
         [(''url'', url),
          (''strategy'', strategy),
          (''timestamp'', JStr (now e)),
          (''performanceScore'', JNum (Math_round (times_num n (Num 100)))),
          (''metrics'', JObj
             [(''firstContentfulPaint'', MetricSample (opt_get metrics ''first-contentful-paint'')),
              (''largestContentfulPaint'', MetricSample (opt_get metrics ''largest-contentful-paint'')),
              (''speedIndex'', MetricSample (opt_get metrics ''speed-index'')),
              (''totalBlockingTime'', MetricSample (opt_get metrics ''total-blocking-time'')),
              (''cumulativeLayoutShift'', MetricSample (opt_get metrics ''cumulative-layout-shift''))]),
          (''opportunities'', JArr (take 5 (map Opportunity (filter over_100 (map snd audits))))),
          (''fieldData'', or_else (opt_get data ''loadingExperience'') JNull),
          (''screenshot'',
             or_else (opt_get (opt_get (opt_get metrics ''final-screenshot'') ''details'') ''data'') JNull)])"
    unfolding extract_result_def Let_def
    by (simp only: get_not_nullish d l c p s n keys loop nn entries metric_not_nullish
        bind_sum_simps metrics_def [symmetric] not_False_eq_True)
  then show ?thesis by simp
qed


lemma calls_single:
  "calls (pagespeed e axios_get body) = [params] \<longleftrightarrow>
     (\<exists>url strategy. request_params e body = Next (url, strategy, params))"
  by (auto simp: pagespeed_def split: flow.splits)

lemma sent_fulfilled:
  "request_params e body = Next (url, strategy, params) \<Longrightarrow> axios_get params = Fulfilled data \<Longrightarrow>
   sent (pagespeed e axios_get body) =
     (case extract_result e url strategy data of
        Inl err \<Rightarrow> pagespeed_catch e err
      | Inr result \<Rightarrow>
          Inr \<lparr>res_status = 200, res_json = JObj
                 [(''success'', JBool True), (''data'', result)]\<rparr>)"
  by (simp add: pagespeed_def)

lemma sent_rejected:
  "request_params e body = Next (url, strategy, params) \<Longrightarrow> axios_get params = Rejected reason \<Longrightarrow>
   sent (pagespeed e axios_get body) = pagespeed_catch e (Upstream reason)"
  by (simp add: pagespeed_def)

lemma catch_TypeError:
  "pagespeed_catch e TypeError =
     Inr \<lparr>res_status = 500, res_json = JObj
            [(''error'', JStr ''Internal Server Error''),
             (''message'', JStr ''An unexpected error occurred'')]\<rparr>"
  by (simp add: pagespeed_catch_def)

lemma analyzed_extract:
  assumes "analyzed e axios_get body data r"
  shows "\<exists>url strategy. extract_result e url strategy data = Inr r"
proof -
  from assms obtain params where c: "calls (pagespeed e axios_get body) = [params]"
    and f: "axios_get params = Fulfilled data"
    and s: "sent (pagespeed e axios_get body) =
            Inr \<lparr>res_status = 200, res_json = JObj
                   [(''success'', JBool True), (''data'', r)]\<rparr>"
    by (auto simp: analyzed_def split: list.splits)
  from c obtain url strategy where n: "request_params e body = Next (url, strategy, params)"
    by (auto simp: calls_single)
  show ?thesis
  proof (cases "extract_result e url strategy data")
    case (Inl err)
    then have "err = TypeError" by (rule extract_result_Inl)
    with Inl s sent_fulfilled [where axios_get = axios_get, OF n f] show ?thesis by (simp add: catch_TypeError)
  next
    case (Inr r')
    with s sent_fulfilled [where axios_get = axios_get, OF n f] show ?thesis by auto
  qed
qed

lemma analyzedI:
  assumes "request_params e body = Next (url, strategy, params)"
    and "axios_get params = Fulfilled data"
    and "extract_result e url strategy data = Inr r"
  shows "analyzed e axios_get body data r"
proof -
  have "calls (pagespeed e axios_get body) = [params]"
    using assms(1) by (auto simp: calls_single)
  then show ?thesis
    using sent_fulfilled [where axios_get = axios_get, OF assms(1,2)] assms(2,3) by (simp add: analyzed_def)
qed

section \<open>The closed instances\<close>

lemma fixture_simps [simp]:
  "PAGESPEED_API_KEY fixture = JUndefined"
  "now fixture = ''2024-01-01T00:00:00.000Z''"
  "URL_parses fixture s = True"
  by (simp_all add: fixture_def)

lemma isValidUrl_fixture [simp]: "isValidUrl fixture (JStr s) = has_scheme s"
  by (simp add: isValidUrl_def)

lemma has_scheme_example [simp]: "has_scheme ''https://example.com''"
  by (simp add: has_scheme_def ascii_alpha_def scheme_char_def)

lemma scheme_less_example [simp]: "\<not> has_scheme ''example.com''"
  by (simp add: has_scheme_def ascii_alpha_def scheme_char_def)

lemma sample_request:
  "request_params fixture sample_body =
     Next (JStr ''https://example.com'', JStr ''mobile'',
       JObj [(''url'', JStr ''https://example.com''), (''strategy'', JStr ''mobile''),
             (''category'', JStr ''performance'')])"
  by (simp add: request_params_def sample_body_def opt_get_def isValidUrl_def Let_def)

lemma sample_complete: "complete_audits sample_audits"
  by (simp add: complete_audits_def sample_audits_def core_metrics_def typed_audit_def
      sample_metric_def sample_saving_def nullish_def opt_get_def)

lemma sample_paths:
  "path (sample_payload score audits) [''lighthouseResult'', ''audits''] = Inr (JObj audits)"
  "path (sample_payload score audits) [''lighthouseResult'', ''categories'', ''performance'', ''score'']
     = Inr score"
  by (simp_all add: sample_payload_def)

lemma sample_analyzed:
  assumes "ToNumber fixture score = Inr n"
  shows "\<exists>r. analyzed fixture (replies (sample_payload score sample_audits)) sample_body
            (sample_payload score sample_audits) r"
proof -
  from extract_result_complete [OF sample_paths(1) sample_complete sample_paths(2) assms]
  obtain r where "extract_result fixture (JStr ''https://example.com'') (JStr ''mobile'')
      (sample_payload score sample_audits) = Inr r"
    by blast
  then show ?thesis
    using analyzedI [OF sample_request, where axios_get = "replies (sample_payload score sample_audits)"]
    by (auto simp: replies_def)
qed

lemma not_a_url [simp]: "\<not> has_scheme ''not a url''"
  by (simp add: has_scheme_def ascii_alpha_def scheme_char_def)

lemma empty_scheme_less [simp]: "\<not> has_scheme []"
  by (simp add: has_scheme_def)

section \<open>The request parameters and the catch block\<close>

lemma map_of_assign: "map_of (assign kvs k v) k' = (if k' = k then Some v else map_of kvs k')"
  by (induction kvs) auto

lemma map_of_fold_category:
  "k \<noteq> ''category'' \<Longrightarrow>
   map_of (fold (\<lambda>category ps. assign ps ''category'' category) cs kvs) k = map_of kvs k"
  by (induction cs arbitrary: kvs) (simp_all add: map_of_assign)

lemma request_params_url:
  assumes "request_params e body = Next (url, strategy, params)"
  shows "get body ''url'' = Inr url \<and> truthy url \<and> isValidUrl e url \<and> get params ''url'' = Inr url"
  using assms
  by (auto simp: request_params_def Let_def map_of_fold_category map_of_assign
      split: sum.splits if_splits jsval.splits)

lemma request_params_Return:
  assumes "request_params e body = Return r" and "get body ''url'' = Inr url"
    and "truthy url" and "isValidUrl e url"
  shows "res_json r = JObj
                 [(''error'', JStr ''Invalid strategy''),
                  (''message'', JStr (''Strategy must be either '' @ [CHR 0x22] @ ''mobile'' @
                     [CHR 0x22] @ '' or '' @ [CHR 0x22] @ ''desktop'' @ [CHR 0x22]))]"
  using assms
  by (auto simp: request_params_def Let_def split: sum.splits if_splits jsval.splits)

lemma catch_error_label:
  assumes "pagespeed_catch e err = Inr r"
  shows "opt_get (res_json r) ''error'' \<in>
     {JStr ''Bad Request'', JStr ''API Key Error'', JStr ''Rate Limited'', JStr ''API Error'',
      JStr ''Timeout'', JStr ''Internal Server Error''}"
  using assms
  by (auto simp: pagespeed_catch_def Let_def bind_eq_Inr opt_get_def
      split: error.splits axios_error.splits option.splits prod.splits if_splits)

section \<open>The settled calls of the comparison\<close>

lemma compare_valid:
  assumes "get body ''url'' = Inr url" and "truthy url" and "isValidUrl e url"
  shows "compare e axios_get body =
     \<lparr>calls = [compare_params e url ''mobile'', compare_params e url ''desktop''],
      sent = Inr
        (case bind (settled_result e (axios_get (compare_params e url ''mobile''))) (\<lambda>mobile.
              bind (settled_result e (axios_get (compare_params e url ''desktop''))) (\<lambda>desktop.
                Inr [(''mobile'', mobile), (''desktop'', desktop)])) of
           Inl err \<Rightarrow>
             \<lparr>res_status = 500, res_json = JObj
               [(''error'', JStr ''Internal Server Error''),
                (''message'', JStr ''Failed to compare mobile and desktop scores'')]\<rparr>
         | Inr results \<Rightarrow>
             \<lparr>res_status = 200, res_json = JObj
                [(''success'', JBool True),
                 (''url'', url),
                 (''timestamp'', JStr (now e)),
                 (''data'', JObj results)]\<rparr>)\<rparr>"
  using assms by (simp add: compare_def Let_def compare_params_def)

lemma settled_result_score:
  assumes "path data [''lighthouseResult'', ''categories'', ''performance'', ''score''] = Inr score"
    and "ToNumber e score = Inr n"
  shows "settled_result e (Fulfilled data) =
     Inr (JObj [(''score'', JNum (Math_round (times_num n (Num 100)))),
                (''status'', JStr ''success'')])"
proof -
  from assms(1) obtain l c p where "get data ''lighthouseResult'' = Inr l"
    "get l ''categories'' = Inr c" "get c ''performance'' = Inr p" "get p ''score'' = Inr score"
    by (auto simp: bind_eq_Inr)
  with assms(2) show ?thesis by (simp add: settled_result_def)
qed

lemma settled_result_settles:
  "settles_as response outcome \<Longrightarrow> settled_result e response = Inr (reported outcome)"
proof (induction response outcome rule: settles_as.induct)
  case (1 data s)
  then have "path data [''lighthouseResult'', ''categories'', ''performance'', ''score'']
      = Inr (JNum (Num s))" by simp
  from settled_result_score [OF this, of e "Num s"] show ?case
    by simp
next
  case (2 reason m)
  then show ?case by (simp add: settled_result_def)
qed simp_all

lemma settled_result_lacks:
  "lacks_score response \<Longrightarrow> \<exists>err. settled_result e response = Inl err"
proof (cases response)
  case (Fulfilled data)
  assume "lacks_score response"
  with Fulfilled show ?thesis
    by (auto simp: settled_result_def bind_def split: sum.splits)
qed simp

section \<open>The category parameters of the upstream query\<close>

text \<open>
  C1. A request for two categories should put both into the upstream query. The loop of
  lines 83 to 85 assigns every category to the same property \<^verbatim>\<open>category\<close> of the
  parameter object, so the object given to \<^verbatim>\<open>axios.get\<close> carries one category, the last:
  for \<^verbatim>\<open>['performance', 'accessibility']\<close> the query holds \<^verbatim>\<open>accessibility\<close> alone.
\<close>

theorem C1_only_last_category_sent:
  "calls (pagespeed fixture timed_out
       (JObj [(''url'', JStr ''https://example.com''),
              (''categories'', JArr [JStr ''performance'', JStr ''accessibility''])]))
   = [JObj [(''url'', JStr ''https://example.com''),
            (''strategy'', JStr ''mobile''),
            (''category'', JStr ''accessibility'')]]"
  by (simp add: pagespeed_def request_params_def opt_get_def isValidUrl_def Let_def)

section \<open>Comparing both strategies\<close>

text \<open>
  C2, as amended. For a request with a valid url the handler starts both upstream calls
  and answers from both settled calls together. Whenever each call either succeeds with a
  category score \<open>s\<close> or fails with a message, the reply is a success (status 200,
  \<^verbatim>\<open>success: true\<close>) whose entry for each strategy is made from that strategy's own call
  alone: \<^verbatim>\<open>{score: round(s * 100), status: 'success'}\<close> for the success and
  \<^verbatim>\<open>{score: null, status: 'failed', error: message}\<close> for the failure. But a call that is
  fulfilled with a payload in which the category score cannot be reached makes the whole
  request fail with status 500, whatever the other call gave.
\<close>

theorem C2_compare_reports_each_strategy:
  assumes "get body ''url'' = Inr url" and "truthy url" and "isValidUrl e url"
  shows "(settles_as (axios_get (compare_params e url ''mobile'')) mobile \<and>
          settles_as (axios_get (compare_params e url ''desktop'')) desktop \<longrightarrow>
            compare e axios_get body =
              \<lparr>calls = [compare_params e url ''mobile'', compare_params e url ''desktop''],
               sent = Inr \<lparr>res_status = 200, res_json = JObj
                 [(''success'', JBool True),
                  (''url'', url),
                  (''timestamp'', JStr (now e)),
                  (''data'', JObj [(''mobile'', reported mobile),
                                   (''desktop'', reported desktop)])]\<rparr>\<rparr>) \<and>
         (lacks_score (axios_get (compare_params e url ''mobile'')) \<or>
          lacks_score (axios_get (compare_params e url ''desktop'')) \<longrightarrow>
            compare e axios_get body =
              \<lparr>calls = [compare_params e url ''mobile'', compare_params e url ''desktop''],
               sent = Inr \<lparr>res_status = 500, res_json = JObj
                 [(''error'', JStr ''Internal Server Error''),
                  (''message'', JStr ''Failed to compare mobile and desktop scores'')]\<rparr>\<rparr>)"
proof (intro conjI impI)
  assume "settles_as (axios_get (compare_params e url ''mobile'')) mobile \<and>
          settles_as (axios_get (compare_params e url ''desktop'')) desktop"
  then have "settled_result e (axios_get (compare_params e url ''mobile'')) = Inr (reported mobile)"
    "settled_result e (axios_get (compare_params e url ''desktop'')) = Inr (reported desktop)"
    by (simp_all add: settled_result_settles)
  with compare_valid [OF assms, of axios_get]
  show "compare e axios_get body =
              \<lparr>calls = [compare_params e url ''mobile'', compare_params e url ''desktop''],
               sent = Inr \<lparr>res_status = 200, res_json = JObj
                 [(''success'', JBool True),
                  (''url'', url),
                  (''timestamp'', JStr (now e)),
                  (''data'', JObj [(''mobile'', reported mobile),
                                   (''desktop'', reported desktop)])]\<rparr>\<rparr>"
    by simp
next
  assume "lacks_score (axios_get (compare_params e url ''mobile'')) \<or>
          lacks_score (axios_get (compare_params e url ''desktop''))"
  then have "\<exists>err. bind (settled_result e (axios_get (compare_params e url ''mobile''))) (\<lambda>mobile.
              bind (settled_result e (axios_get (compare_params e url ''desktop''))) (\<lambda>desktop.
                Inr [(''mobile'', mobile), (''desktop'', desktop)])) = Inl err"
    using settled_result_lacks [of "axios_get (compare_params e url ''mobile'')" e]
      settled_result_lacks [of "axios_get (compare_params e url ''desktop'')" e]
    by (cases "settled_result e (axios_get (compare_params e url ''mobile''))") auto
  with compare_valid [OF assms, of axios_get]
  show "compare e axios_get body =
              \<lparr>calls = [compare_params e url ''mobile'', compare_params e url ''desktop''],
               sent = Inr \<lparr>res_status = 500, res_json = JObj
                 [(''error'', JStr ''Internal Server Error''),
                  (''message'', JStr ''Failed to compare mobile and desktop scores'')]\<rparr>\<rparr>"
    by auto
qed

theorem C2_witness_mobile_90_desktop_timeout:
  "compare fixture (only_succeeds ''mobile'' (sample_payload (JNum (double (9 / 10))) []))
     sample_body =
     \<lparr>calls = [compare_params fixture (JStr ''https://example.com'') ''mobile'',
               compare_params fixture (JStr ''https://example.com'') ''desktop''],
      sent = Inr \<lparr>res_status = 200, res_json = JObj
                [(''success'', JBool True),
                 (''url'', JStr ''https://example.com''),
                 (''timestamp'', JStr ''2024-01-01T00:00:00.000Z''),
                 (''data'', JObj
                    [(''mobile'', JObj [(''score'', JNum (Num 90)), (''status'', JStr ''success'')]),
                     (''desktop'', JObj [(''score'', JNull), (''status'', JStr ''failed''),
                        (''error'', JStr ''timeout of 30000ms exceeded'')])])]\<rparr>\<rparr> \<and>
   compare fixture (only_succeeds ''mobile'' JNull) sample_body =
     \<lparr>calls = [compare_params fixture (JStr ''https://example.com'') ''mobile'',
               compare_params fixture (JStr ''https://example.com'') ''desktop''],
      sent = Inr \<lparr>res_status = 500, res_json = JObj
                 [(''error'', JStr ''Internal Server Error''),
                  (''message'', JStr ''Failed to compare mobile and desktop scores'')]\<rparr>\<rparr>"
proof -
  have u: "get sample_body ''url'' = Inr (JStr ''https://example.com'')"
    "truthy (JStr ''https://example.com'')" "isValidUrl fixture (JStr ''https://example.com'')"
    by (simp_all add: sample_body_def)
  have m: "settles_as
      (only_succeeds ''mobile'' (sample_payload (JNum (double (9 / 10))) [])
         (compare_params fixture (JStr ''https://example.com'') ''mobile''))
      (Succeeds (8106479329266893 / 2 ^ 53))"
    unfolding double_9_10 by (simp add: only_succeeds_def compare_params_def sample_payload_def)
  have d: "settles_as
      (only_succeeds ''mobile'' data
         (compare_params fixture (JStr ''https://example.com'') ''desktop''))
      (Fails ''timeout of 30000ms exceeded'')" for data
    by (simp add: only_succeeds_def compare_params_def timed_out_def)
  have l: "lacks_score (only_succeeds ''mobile'' JNull
         (compare_params fixture (JStr ''https://example.com'') ''mobile''))"
    by (simp add: only_succeeds_def compare_params_def)
  have r: "reported (Succeeds (8106479329266893 / 2 ^ 53)) =
      JObj [(''score'', JNum (Num 90)), (''status'', JStr ''success'')]"
    unfolding reported.simps times_9_10 by simp
  from C2_compare_reports_each_strategy [OF u,
         of "only_succeeds ''mobile'' (sample_payload (JNum (double (9 / 10))) [])"
            "Succeeds (8106479329266893 / 2 ^ 53)" "Fails ''timeout of 30000ms exceeded''"]
       m d r reported.simps(2) [of "''timeout of 30000ms exceeded''"]
  have 1: "compare fixture (only_succeeds ''mobile'' (sample_payload (JNum (double (9 / 10))) []))
     sample_body =
     \<lparr>calls = [compare_params fixture (JStr ''https://example.com'') ''mobile'',
               compare_params fixture (JStr ''https://example.com'') ''desktop''],
      sent = Inr \<lparr>res_status = 200, res_json = JObj
                [(''success'', JBool True),
                 (''url'', JStr ''https://example.com''),
                 (''timestamp'', JStr ''2024-01-01T00:00:00.000Z''),
                 (''data'', JObj
                    [(''mobile'', JObj [(''score'', JNum (Num 90)), (''status'', JStr ''success'')]),
                     (''desktop'', JObj [(''score'', JNull), (''status'', JStr ''failed''),
                        (''error'', JStr ''timeout of 30000ms exceeded'')])])]\<rparr>\<rparr>"
    by (simp del: reported.simps)
  from C2_compare_reports_each_strategy [OF u, of "only_succeeds ''mobile'' JNull"] l
  have 2: "compare fixture (only_succeeds ''mobile'' JNull) sample_body =
     \<lparr>calls = [compare_params fixture (JStr ''https://example.com'') ''mobile'',
               compare_params fixture (JStr ''https://example.com'') ''desktop''],
      sent = Inr \<lparr>res_status = 500, res_json = JObj
                 [(''error'', JStr ''Internal Server Error''),
                  (''message'', JStr ''Failed to compare mobile and desktop scores'')]\<rparr>\<rparr>"
    by blast
  from 1 2 show ?thesis by blast
qed

text \<open>
  The claim as first stated, that each strategy's outcome is captured whatever the other
  call gave and that the request fails only on validation, fails when the mobile call
  succeeds with the score 0.9 and the desktop call is fulfilled with an empty object: no
  call failed and the mobile call settled with a score, yet line 268 raises and the
  \<^verbatim>\<open>catch\<close> of line 288 answers 500 for the whole request.
\<close>

theorem C2_counterexample_sibling_without_score:
  "settles_as
     (per_strategy (Fulfilled (sample_payload (JNum (Num (8106479329266893 / 2 ^ 53))) []))
        (Fulfilled (JObj []))
        (compare_params fixture (JStr ''https://example.com'') ''mobile''))
     (Succeeds (8106479329266893 / 2 ^ 53)) \<and>
   per_strategy (Fulfilled (sample_payload (JNum (Num (8106479329266893 / 2 ^ 53))) []))
        (Fulfilled (JObj []))
        (compare_params fixture (JStr ''https://example.com'') ''desktop'') = Fulfilled (JObj []) \<and>
   sent (compare fixture
      (per_strategy (Fulfilled (sample_payload (JNum (Num (8106479329266893 / 2 ^ 53))) []))
         (Fulfilled (JObj [])))
      sample_body) =
     Inr \<lparr>res_status = 500, res_json = JObj
            [(''error'', JStr ''Internal Server Error''),
             (''message'', JStr ''Failed to compare mobile and desktop scores'')]\<rparr>"
proof -
  have u: "get sample_body ''url'' = Inr (JStr ''https://example.com'')"
    "truthy (JStr ''https://example.com'')" "isValidUrl fixture (JStr ''https://example.com'')"
    by (simp_all add: sample_body_def)
  have m: "per_strategy mobile desktop
      (compare_params fixture (JStr ''https://example.com'') ''mobile'') = mobile"
    and d: "per_strategy mobile desktop
      (compare_params fixture (JStr ''https://example.com'') ''desktop'') = desktop"
    for mobile desktop
    by (simp_all add: per_strategy_def compare_params_def)
  have s: "settled_result fixture (Fulfilled (JObj [])) = Inl TypeError"
    by (simp add: settled_result_def)
  have p: "path (sample_payload (JNum (Num (8106479329266893 / 2 ^ 53))) [])
      [''lighthouseResult'', ''categories'', ''performance'', ''score'']
        = Inr (JNum (Num (8106479329266893 / 2 ^ 53)))"
    by (rule sample_paths)
  have ok: "settled_result fixture
      (Fulfilled (sample_payload (JNum (Num (8106479329266893 / 2 ^ 53))) [])) =
      Inr (JObj [(''score'', JNum (Math_round (times_num (Num (8106479329266893 / 2 ^ 53)) (Num 100)))),
                (''status'', JStr ''success'')])"
    by (rule settled_result_score [OF p]) simp
  show ?thesis
    unfolding compare_valid [OF u] m d settles_as.simps
    using p by (simp only: s ok bind_sum_simps sum.case exchange.simps)
qed

section \<open>The opportunities\<close>

text \<open>
  C3. When the handler answers with a report, its \<^verbatim>\<open>opportunities\<close> are made from exactly
  the audit entries whose \<^verbatim>\<open>details.overallSavingsMs\<close> is strictly greater than 100, in
  the order of the upstream audits collection, and cut to the first five after the
  filtering. This is for an audits collection whose savings are numbers (or absent, null or
  boolean), not strings, arrays or objects. Seven entries saving 50, 150, 900, 101, 99,
  5000 and 200 give the five entries saving 150, 900, 101, 5000 and 200.
\<close>

theorem C3_opportunities_filtered_in_order:
  assumes "analyzed e axios_get body data r"
    and "path data [''lighthouseResult'', ''audits''] = Inr (JObj audits)"
    and "\<forall>(key, audit) \<in> set audits. typed_audit audit"
  shows "get r ''opportunities'' =
           Inr (JArr (take 5 (map Opportunity (filter over_100 (map snd audits)))))"
proof -
  from analyzed_extract [OF assms(1)] obtain url strategy where
    "extract_result e url strategy data = Inr r" by blast
  from extract_result_Inr [OF this] assms(2) obtain entries opportunities where
    en: "Object_entries (JObj audits) = Inr entries"
    and loop: "opportunities_loop e entries [] = Inr opportunities"
    and r: "get r ''opportunities'' = Inr (JArr (take 5 opportunities))"
    by auto
  from en have "entries = audits" by simp
  moreover from assms(3) have "list_all (\<lambda>(k, a). typed_audit a) audits"
    by (simp add: list_all_iff)
  ultimately have "opportunities = map Opportunity (filter over_100 (map snd audits))"
    using loop loop_typed [of audits e "[]"] by simp
  with r show ?thesis by simp
qed

theorem C3_witness_seven_audits:
  "\<exists>r. analyzed fixture (replies (sample_payload (JNum (Num (1 / 2))) sample_audits))
          sample_body (sample_payload (JNum (Num (1 / 2))) sample_audits) r \<and>
       get r ''opportunities'' =
         Inr (JArr (map Opportunity
           [sample_saving ''b'' 150, sample_saving ''c'' 900, sample_saving ''d'' 101,
            sample_saving ''f'' 5000, sample_saving ''g'' 200]))"
proof -
  from sample_analyzed [of "JNum (Num (1 / 2))" "Num (1 / 2)"] obtain r where
    a: "analyzed fixture (replies (sample_payload (JNum (Num (1 / 2))) sample_audits))
          sample_body (sample_payload (JNum (Num (1 / 2))) sample_audits) r"
    by auto
  have t: "\<forall>(key, audit) \<in> set sample_audits. typed_audit audit"
    using sample_complete by (simp add: complete_audits_def list_all_iff)
  have o: "over_100 (sample_saving t ms) = (100 < ms)" for t ms
    by (simp add: over_100_def sample_saving_def opt_get_def)
  have m: "\<not> over_100 (sample_metric s d n)" for s d n
    by (simp add: over_100_def sample_metric_def opt_get_def)
  have "take 5 (map Opportunity (filter over_100 (map snd sample_audits))) =
      map Opportunity
           [sample_saving ''b'' 150, sample_saving ''c'' 900, sample_saving ''d'' 101,
            sample_saving ''f'' 5000, sample_saving ''g'' 200]"
    by (simp add: sample_audits_def o m)
  with C3_opportunities_filtered_in_order [OF a sample_paths(1) t] a show ?thesis
    by auto
qed

section \<open>The performance score\<close>



section \<open>A missing metric audit\<close>

text \<open>
  C5. When the upstream answers with a payload whose audits collection has no entry for
  one of the five metric keys, the extraction raises (a TypeError, the only error it can
  raise, for whatever url and strategy) and the handler's catch-all branch answers 500
  Internal Server Error: the code has no label of its own for a malformed payload. A
  payload without \<^verbatim>\<open>total-blocking-time\<close> is answered so.
\<close>

theorem C5_missing_metric_is_internal_error:
  assumes "calls (pagespeed e axios_get body) = [params]"
    and "axios_get params = Fulfilled data"
    and "path data [''lighthouseResult'', ''audits''] = Inr (JObj audits)"
    and "(name, key) \<in> set core_metrics"
    and "key \<notin> fst ` set audits"
  shows "(\<forall>url strategy. extract_result e url strategy data = Inl TypeError) \<and>
         sent (pagespeed e axios_get body) =
           Inr \<lparr>res_status = 500, res_json = JObj
                  [(''error'', JStr ''Internal Server Error''),
                   (''message'', JStr ''An unexpected error occurred'')]\<rparr>"
proof -
  have missing: "opt_get (JObj audits) key = JUndefined"
  proof -
    from assms(5) have "map_of audits key = None" by (simp add: map_of_eq_None_iff)
    then show ?thesis by (simp add: opt_get_JObj)
  qed
  have fails: "extract_result e url strategy data = Inl TypeError" for url strategy
  proof (cases "extract_result e url strategy data")
    case (Inl err)
    then show ?thesis using extract_result_Inl by blast
  next
    case (Inr r)
    from extract_result_Inr [OF this] assms(3) have
      "\<not> nullish (opt_get (JObj audits) ''first-contentful-paint'')"
      "\<not> nullish (opt_get (JObj audits) ''largest-contentful-paint'')"
      "\<not> nullish (opt_get (JObj audits) ''speed-index'')"
      "\<not> nullish (opt_get (JObj audits) ''total-blocking-time'')"
      "\<not> nullish (opt_get (JObj audits) ''cumulative-layout-shift'')"
      by auto
    with assms(4) missing show ?thesis
      by (auto simp: core_metrics_def nullish_def)
  qed
  from assms(1) obtain url strategy where
    n: "request_params e body = Next (url, strategy, params)"
    by (auto simp: calls_single)
  from sent_fulfilled [where axios_get = axios_get, OF n assms(2)] fails [of url strategy]
  have "sent (pagespeed e axios_get body) = pagespeed_catch e TypeError" by simp
  with fails show ?thesis by (simp add: catch_TypeError)
qed

theorem C5_witness_no_total_blocking_time:
  "sent (pagespeed fixture
      (replies (sample_payload (JNum (Num (1 / 2)))
         (filter (\<lambda>(key, audit). key \<noteq> ''total-blocking-time'') sample_audits)))
      sample_body) =
     Inr \<lparr>res_status = 500, res_json = JObj
            [(''error'', JStr ''Internal Server Error''),
             (''message'', JStr ''An unexpected error occurred'')]\<rparr>"
proof -
  have c: "calls (pagespeed fixture
      (replies (sample_payload (JNum (Num (1 / 2)))
         (filter (\<lambda>(key, audit). key \<noteq> ''total-blocking-time'') sample_audits)))
      sample_body) = [JObj [(''url'', JStr ''https://example.com''), (''strategy'', JStr ''mobile''),
             (''category'', JStr ''performance'')]]"
    using sample_request by (auto simp: calls_single)
  have k: "(''totalBlockingTime'', ''total-blocking-time'') \<in> set core_metrics"
    by (simp add: core_metrics_def)
  have a: "''total-blocking-time'' \<notin>
      fst ` set (filter (\<lambda>(key, audit). key \<noteq> ''total-blocking-time'') sample_audits)"
    by auto
  from C5_missing_metric_is_internal_error [OF c _ sample_paths(1) k a]
  show ?thesis by (simp add: replies_def)
qed

section \<open>Validation before any upstream call\<close>

text \<open>
  C6. For a request body that can be destructured (it is not null or undefined), the
  handler answers a validation failure with its own 400 reply and gives nothing to
  \<^verbatim>\<open>axios.get\<close>: "URL is required" when \<^verbatim>\<open>url\<close> is absent, empty or otherwise falsy,
  "Invalid URL" when it does not parse, and "Invalid strategy" when a strategy is supplied
  that is neither \<^verbatim>\<open>mobile\<close> nor \<^verbatim>\<open>desktop\<close>.
\<close>

theorem C6_validation_errors_make_no_call:
  assumes "get body ''url'' = Inr url"
  shows \<open>(\<not> truthy url \<longrightarrow>
            pagespeed e axios_get body =
              \<lparr>calls = [], sent = Inr \<lparr>res_status = 400, res_json = JObj
                 [(''error'', JStr ''URL is required''),
                  (''message'', JStr ''Please provide a valid URL to analyze'')]\<rparr>\<rparr>) \<and>
         (truthy url \<and> \<not> isValidUrl e url \<longrightarrow>
            pagespeed e axios_get body =
              \<lparr>calls = [], sent = Inr \<lparr>res_status = 400, res_json = JObj
                 [(''error'', JStr ''Invalid URL''),
                  (''message'', JStr
                     ''Please provide a valid URL format (including http:// or https://)'')]\<rparr>\<rparr>) \<and>
         (truthy url \<and> isValidUrl e url \<and>
          opt_get body ''strategy'' \<notin> {JUndefined, JStr ''mobile'', JStr ''desktop''} \<longrightarrow>
            pagespeed e axios_get body =
              \<lparr>calls = [], sent = Inr \<lparr>res_status = 400, res_json = JObj
                 [(''error'', JStr ''Invalid strategy''),
                  (''message'', JStr ''Strategy must be either "mobile" or "desktop"'')]\<rparr>\<rparr>)\<close>
proof -
  have s: "(case opt_get body ''strategy'' of JUndefined \<Rightarrow> JStr ''mobile'' | JNull \<Rightarrow> JNull
              | JBool b \<Rightarrow> JBool b | JNum n \<Rightarrow> JNum n | JStr s \<Rightarrow> JStr s | JArr xs \<Rightarrow> JArr xs
              | JObj kvs \<Rightarrow> JObj kvs) = opt_get body ''strategy''"
    if "opt_get body ''strategy'' \<noteq> JUndefined"
    using that by (cases "opt_get body ''strategy''") simp_all
  show ?thesis
    using assms by (auto simp: pagespeed_def request_params_def Let_def s)
qed

theorem C6_witness_three_rejections:
  \<open>pagespeed fixture timed_out (JObj []) =
     \<lparr>calls = [], sent = Inr \<lparr>res_status = 400, res_json = JObj
        [(''error'', JStr ''URL is required''),
         (''message'', JStr ''Please provide a valid URL to analyze'')]\<rparr>\<rparr> \<and>
   pagespeed fixture timed_out (JObj [(''url'', JStr ''not a url'')]) =
     \<lparr>calls = [], sent = Inr \<lparr>res_status = 400, res_json = JObj
        [(''error'', JStr ''Invalid URL''),
         (''message'', JStr
            ''Please provide a valid URL format (including http:// or https://)'')]\<rparr>\<rparr> \<and>
   pagespeed fixture timed_out
       (JObj [(''url'', JStr ''https://example.com''), (''strategy'', JStr ''tablet'')]) =
     \<lparr>calls = [], sent = Inr \<lparr>res_status = 400, res_json = JObj
        [(''error'', JStr ''Invalid strategy''),
         (''message'', JStr ''Strategy must be either "mobile" or "desktop"'')]\<rparr>\<rparr>\<close>
  using C6_validation_errors_make_no_call [of "JObj []" JUndefined fixture timed_out]
    C6_validation_errors_make_no_call
      [of "JObj [(''url'', JStr ''not a url'')]" "JStr ''not a url''" fixture timed_out]
    C6_validation_errors_make_no_call
      [of "JObj [(''url'', JStr ''https://example.com''), (''strategy'', JStr ''tablet'')]"
          "JStr ''https://example.com''" fixture timed_out]
  by (simp add: isValidUrl_def opt_get_def)

section \<open>The upstream 403\<close>

text \<open>
  C7. Whenever the upstream call is rejected with status 403, the handler answers 403 with
  the label "API Key Error" and one fixed message: the reply does not depend on the
  upstream body, code or message, so two such runs send the same reply.
\<close>

theorem C7_credential_error_message_is_fixed:
  assumes "calls (pagespeed e1 axios_get1 body1) = [params1]"
    and "axios_get1 params1 = Rejected (AxiosError (Some (403, errorData1)) code1 message1)"
    and "calls (pagespeed e2 axios_get2 body2) = [params2]"
    and "axios_get2 params2 = Rejected (AxiosError (Some (403, errorData2)) code2 message2)"
  shows "sent (pagespeed e1 axios_get1 body1) =
           Inr \<lparr>res_status = 403, res_json = JObj
             [(''error'', JStr ''API Key Error''),
              (''message'', JStr
                 ''Invalid or missing Google API key. Please check your API key configuration.'')]\<rparr> \<and>
         sent (pagespeed e2 axios_get2 body2) = sent (pagespeed e1 axios_get1 body1)"
proof -
  have one: "sent (pagespeed e axios_get body) =
           Inr \<lparr>res_status = 403, res_json = JObj
             [(''error'', JStr ''API Key Error''),
              (''message'', JStr
                 ''Invalid or missing Google API key. Please check your API key configuration.'')]\<rparr>"
    if c: "calls (pagespeed e axios_get body) = [params]"
      and r: "axios_get params = Rejected (AxiosError (Some (403, errorData)) code msg)"
    for e axios_get body params errorData code msg
  proof -
    from c obtain url strategy where n: "request_params e body = Next (url, strategy, params)"
      by (auto simp: calls_single)
    from sent_rejected [where axios_get = axios_get, OF n r] show ?thesis
      by (simp add: pagespeed_catch_def Let_def)
  qed
  from one [OF assms(1,2)] one [OF assms(3,4)] show ?thesis by simp
qed

theorem C7_witness_two_upstream_bodies:
  "sent (pagespeed fixture
      (rejects (AxiosError (Some (403, JObj [(''error'', JObj
         [(''message'', JStr ''API key not valid. Please pass a valid API key.'')])]))
         (Some ''ERR_BAD_REQUEST'') ''Request failed with status code 403''))
      sample_body) =
     Inr \<lparr>res_status = 403, res_json = JObj
       [(''error'', JStr ''API Key Error''),
        (''message'', JStr
           ''Invalid or missing Google API key. Please check your API key configuration.'')]\<rparr> \<and>
   sent (pagespeed fixture
      (rejects (AxiosError (Some (403, JStr ''Quota exceeded for project 1234''))
         None ''Forbidden''))
      sample_body) =
   sent (pagespeed fixture
      (rejects (AxiosError (Some (403, JObj [(''error'', JObj
         [(''message'', JStr ''API key not valid. Please pass a valid API key.'')])]))
         (Some ''ERR_BAD_REQUEST'') ''Request failed with status code 403''))
      sample_body)"
proof -
  have c: "calls (pagespeed fixture (rejects reason) sample_body) =
      [JObj [(''url'', JStr ''https://example.com''), (''strategy'', JStr ''mobile''),
             (''category'', JStr ''performance'')]]" for reason
    using sample_request by (auto simp: calls_single)
  show ?thesis
    by (rule C7_credential_error_message_is_fixed [OF c _ c]) (simp_all add: rejects_def)
qed

section \<open>The five metric samples\<close>

text \<open>
  C8. When the handler answers with a report, the score of each of the five metrics in the
  report is the score of the upstream audit it is read from, unchanged; a null score
  arrives as null.
\<close>

theorem C8_metric_scores_unchanged:
  assumes "analyzed e axios_get body data r"
  shows "\<forall>(name, key) \<in> set core_metrics.
           \<exists>v. path data [''lighthouseResult'', ''audits'', key, ''score''] = Inr v \<and>
               path r [''metrics'', name, ''score''] = Inr v"
proof -
  define metrics where "metrics = opt_get (opt_get data ''lighthouseResult'') ''audits''"
  from analyzed_extract [OF assms] obtain url strategy where
    "extract_result e url strategy data = Inr r" by blast
  from extract_result_Inr [OF this, folded metrics_def] obtain entries where
    p: "path data [''lighthouseResult'', ''audits''] = Inr metrics"
    and en: "Object_entries metrics = Inr entries"
    and k: "\<not> nullish (opt_get metrics ''first-contentful-paint'')"
      "\<not> nullish (opt_get metrics ''largest-contentful-paint'')"
      "\<not> nullish (opt_get metrics ''speed-index'')"
      "\<not> nullish (opt_get metrics ''total-blocking-time'')"
      "\<not> nullish (opt_get metrics ''cumulative-layout-shift'')"
    and r: "get r ''metrics'' = Inr (JObj
             [(''firstContentfulPaint'', MetricSample (opt_get metrics ''first-contentful-paint'')),
              (''largestContentfulPaint'', MetricSample (opt_get metrics ''largest-contentful-paint'')),
              (''speedIndex'', MetricSample (opt_get metrics ''speed-index'')),
              (''totalBlockingTime'', MetricSample (opt_get metrics ''total-blocking-time'')),
              (''cumulativeLayoutShift'', MetricSample (opt_get metrics ''cumulative-layout-shift''))])"
    by auto
  from en have m: "\<not> nullish metrics" by (rule Object_entries_Inr)
  have up: "path data [''lighthouseResult'', ''audits'', key, ''score''] =
      bind (get metrics key) (\<lambda>a. get a ''score'')" for key
    using p by (cases "get data ''lighthouseResult''") (auto simp: bind_eq_Inr)
  have down: "path r [''metrics'', name, ''score''] =
      bind (get (JObj
             [(''firstContentfulPaint'', MetricSample (opt_get metrics ''first-contentful-paint'')),
              (''largestContentfulPaint'', MetricSample (opt_get metrics ''largest-contentful-paint'')),
              (''speedIndex'', MetricSample (opt_get metrics ''speed-index'')),
              (''totalBlockingTime'', MetricSample (opt_get metrics ''total-blocking-time'')),
              (''cumulativeLayoutShift'', MetricSample (opt_get metrics ''cumulative-layout-shift''))]) name)
        (\<lambda>a. get a ''score'')" for name
    using r by simp
  show ?thesis
    unfolding up down
    using k m by (simp add: core_metrics_def get_not_nullish MetricSample_def)
qed

theorem C8_witness_null_score:
  "\<exists>r. analyzed fixture (replies (sample_payload (JNum (Num (1 / 2))) sample_audits))
          sample_body (sample_payload (JNum (Num (1 / 2))) sample_audits) r \<and>
       path (sample_payload (JNum (Num (1 / 2))) sample_audits)
         [''lighthouseResult'', ''audits'', ''total-blocking-time'', ''score''] = Inr JNull \<and>
       path r [''metrics'', ''totalBlockingTime'', ''score''] = Inr JNull"
proof -
  from sample_analyzed [of "JNum (Num (1 / 2))" "Num (1 / 2)"] obtain r where
    a: "analyzed fixture (replies (sample_payload (JNum (Num (1 / 2))) sample_audits))
          sample_body (sample_payload (JNum (Num (1 / 2))) sample_audits) r"
    by auto
  have up: "path (sample_payload (JNum (Num (1 / 2))) sample_audits)
         [''lighthouseResult'', ''audits'', ''total-blocking-time'', ''score''] = Inr JNull"
    by (simp add: sample_payload_def sample_audits_def sample_metric_def)
  have "(''totalBlockingTime'', ''total-blocking-time'') \<in> set core_metrics"
    by (simp add: core_metrics_def)
  with C8_metric_scores_unchanged [OF a]
  have "\<exists>v. path (sample_payload (JNum (Num (1 / 2))) sample_audits)
         [''lighthouseResult'', ''audits'', ''total-blocking-time'', ''score''] = Inr v \<and>
       path r [''metrics'', ''totalBlockingTime'', ''score''] = Inr v"
    by blast
  with up have "path r [''metrics'', ''totalBlockingTime'', ''score''] = Inr JNull"
    by auto
  with a up show ?thesis by blast
qed

section \<open>Scheme-less input\<close>

text \<open>
  C9. The handlers give \<^verbatim>\<open>url\<close> to the URL parser as it is, with no scheme put in front, and
  the parser fails on a string without a scheme. So every scheme-less string is rejected
  with status 400 and no upstream call: by the analysis as "Invalid URL" (the empty
  string, which line 49 classes as a missing url, as "URL is required"), and by the
  comparison as "Invalid URL". And every string the parser accepts passes both url checks
  of the analysis (the reply is neither "URL is required" nor "Invalid URL") and is the
  \<^verbatim>\<open>url\<close> of the upstream query, unchanged, whenever a call is made.
\<close>

theorem C9_scheme_less_input_rejected:
  assumes "get body ''url'' = Inr (JStr s)"
  shows "(\<not> has_scheme s \<longrightarrow>
            pagespeed e axios_get body =
              \<lparr>calls = [], sent = Inr \<lparr>res_status = 400, res_json = JObj
                 (if s = []
                  then [(''error'', JStr ''URL is required''),
                        (''message'', JStr ''Please provide a valid URL to analyze'')]
                  else [(''error'', JStr ''Invalid URL''),
                        (''message'', JStr
                           ''Please provide a valid URL format (including http:// or https://)'')])\<rparr>\<rparr> \<and>
            compare e axios_get body =
              \<lparr>calls = [], sent = Inr \<lparr>res_status = 400, res_json = JObj
                 [(''error'', JStr ''Invalid URL''),
                  (''message'', JStr ''Please provide a valid URL'')]\<rparr>\<rparr>) \<and>
         (isValidUrl e (JStr s) \<longrightarrow>
            sent (pagespeed e axios_get body) \<noteq>
              Inr \<lparr>res_status = 400, res_json = JObj
                 [(''error'', JStr ''URL is required''),
                  (''message'', JStr ''Please provide a valid URL to analyze'')]\<rparr> \<and>
            sent (pagespeed e axios_get body) \<noteq>
              Inr \<lparr>res_status = 400, res_json = JObj
                 [(''error'', JStr ''Invalid URL''),
                  (''message'', JStr
                     ''Please provide a valid URL format (including http:// or https://)'')]\<rparr> \<and>
            (\<forall>params. calls (pagespeed e axios_get body) = [params] \<longrightarrow>
               get params ''url'' = Inr (JStr s)))"
proof (intro conjI impI)
  assume n: "\<not> has_scheme s"
  then have v: "\<not> isValidUrl e (JStr s)" by (simp add: isValidUrl_def)
  with assms show "pagespeed e axios_get body =
              \<lparr>calls = [], sent = Inr \<lparr>res_status = 400, res_json = JObj
                 (if s = []
                  then [(''error'', JStr ''URL is required''),
                        (''message'', JStr ''Please provide a valid URL to analyze'')]
                  else [(''error'', JStr ''Invalid URL''),
                        (''message'', JStr
                           ''Please provide a valid URL format (including http:// or https://)'')])\<rparr>\<rparr>"
    by (simp add: pagespeed_def request_params_def Let_def)
  from v assms show "compare e axios_get body =
              \<lparr>calls = [], sent = Inr \<lparr>res_status = 400, res_json = JObj
                 [(''error'', JStr ''Invalid URL''),
                  (''message'', JStr ''Please provide a valid URL'')]\<rparr>\<rparr>"
    by (simp add: compare_def Let_def)
next
  assume p: "isValidUrl e (JStr s)"
  then have "has_scheme s" by (simp add: isValidUrl_def)
  then have ne: "s \<noteq> []" by auto
  have t: "truthy (JStr s)" "isValidUrl e (JStr s)"
    using ne p by simp_all
  have labels: "opt_get (res_json r) ''error'' \<notin> {JStr ''URL is required'', JStr ''Invalid URL''}"
    if "sent (pagespeed e axios_get body) = Inr r" for r
  proof (cases "request_params e body")
    case (Throw err)
    with that have "pagespeed_catch e err = Inr r" by (simp add: pagespeed_def)
    from catch_error_label [OF this] show ?thesis by auto
  next
    case (Return r')
    with that have "r' = r" by (simp add: pagespeed_def)
    with request_params_Return [OF Return assms t] show ?thesis
      by (simp add: opt_get_def)
  next
    case (Next x)
    obtain url strategy params where x: "x = (url, strategy, params)" by (cases x)
    show ?thesis
    proof (cases "axios_get params")
      case (Rejected reason)
      with Next x that have "pagespeed_catch e (Upstream reason) = Inr r"
        by (simp add: pagespeed_def)
      from catch_error_label [OF this] show ?thesis by auto
    next
      case (Fulfilled data)
      show ?thesis
      proof (cases "extract_result e url strategy data")
        case (Inl err)
        with Next x that Fulfilled have "pagespeed_catch e err = Inr r"
          by (simp add: pagespeed_def)
        from catch_error_label [OF this] show ?thesis by auto
      next
        case (Inr result)
        with Next x that Fulfilled show ?thesis
          by (auto simp: pagespeed_def opt_get_def)
      qed
    qed
  qed
  from labels show "sent (pagespeed e axios_get body) \<noteq>
              Inr \<lparr>res_status = 400, res_json = JObj
                 [(''error'', JStr ''URL is required''),
                  (''message'', JStr ''Please provide a valid URL to analyze'')]\<rparr>"
    by (force simp: opt_get_def)
  from labels show "sent (pagespeed e axios_get body) \<noteq>
              Inr \<lparr>res_status = 400, res_json = JObj
                 [(''error'', JStr ''Invalid URL''),
                  (''message'', JStr
                     ''Please provide a valid URL format (including http:// or https://)'')]\<rparr>"
    by (force simp: opt_get_def)
  show "\<forall>params. calls (pagespeed e axios_get body) = [params] \<longrightarrow>
               get params ''url'' = Inr (JStr s)"
    using assms by (auto simp: calls_single dest!: request_params_url)
qed

theorem C9_witness_example_com:
  "pagespeed fixture timed_out (JObj [(''url'', JStr ''example.com'')]) =
     \<lparr>calls = [], sent = Inr \<lparr>res_status = 400, res_json = JObj
        [(''error'', JStr ''Invalid URL''),
         (''message'', JStr
            ''Please provide a valid URL format (including http:// or https://)'')]\<rparr>\<rparr> \<and>
   compare fixture timed_out (JObj [(''url'', JStr ''example.com'')]) =
     \<lparr>calls = [], sent = Inr \<lparr>res_status = 400, res_json = JObj
        [(''error'', JStr ''Invalid URL''),
         (''message'', JStr ''Please provide a valid URL'')]\<rparr>\<rparr> \<and>
   calls (pagespeed fixture timed_out sample_body) =
     [JObj [(''url'', JStr ''https://example.com''), (''strategy'', JStr ''mobile''),
            (''category'', JStr ''performance'')]] \<and>
   get (JObj [(''url'', JStr ''https://example.com''), (''strategy'', JStr ''mobile''),
            (''category'', JStr ''performance'')]) ''url'' = Inr (JStr ''https://example.com'')"
proof -
  have c: "calls (pagespeed fixture timed_out sample_body) =
     [JObj [(''url'', JStr ''https://example.com''), (''strategy'', JStr ''mobile''),
            (''category'', JStr ''performance'')]]"
    using sample_request by (auto simp: calls_single)
  from C9_scheme_less_input_rejected
         [of "JObj [(''url'', JStr ''example.com'')]" "''example.com''" fixture timed_out]
       C9_scheme_less_input_rejected
         [of sample_body "''https://example.com''" fixture timed_out] c
  show ?thesis by (simp add: sample_body_def)
qed

section \<open>A null category score\<close>

text \<open>
  C10. A null performance category score does not make the handlers fail: the
  multiplication takes null as 0. When the rest of the payload is complete, the analysis
  answers with a report whose \<^verbatim>\<open>performanceScore\<close> is 0; and the comparison reports
  \<^verbatim>\<open>{score: 0, status: 'success'}\<close> for a strategy, mobile or desktop, whose call succeeded
  with a null score, whatever the outcome of the other call.
\<close>

theorem C10_null_score_counts_as_zero:
  "(calls (pagespeed e axios_get body) = [params] \<and> axios_get params = Fulfilled data \<and>
    path data [''lighthouseResult'', ''audits''] = Inr (JObj audits) \<and> complete_audits audits \<and>
    path data [''lighthouseResult'', ''categories'', ''performance'', ''score''] = Inr JNull \<longrightarrow>
      (\<exists>r. sent (pagespeed e axios_get body) =
              Inr \<lparr>res_status = 200, res_json = JObj
                     [(''success'', JBool True), (''data'', r)]\<rparr> \<and>
           get r ''performanceScore'' = Inr (JNum (Num 0)))) \<and>
   (get body ''url'' = Inr url \<and> truthy url \<and> isValidUrl e url \<and>
    axios_get (compare_params e url ''mobile'') = Fulfilled data \<and>
    path data [''lighthouseResult'', ''categories'', ''performance'', ''score''] = Inr JNull \<and>
    settles_as (axios_get (compare_params e url ''desktop'')) desktop \<longrightarrow>
      sent (compare e axios_get body) =
        Inr \<lparr>res_status = 200, res_json = JObj
                [(''success'', JBool True),
                 (''url'', url),
                 (''timestamp'', JStr (now e)),
                 (''data'', JObj
                    [(''mobile'', JObj [(''score'', JNum (Num 0)), (''status'', JStr ''success'')]),
                     (''desktop'', reported desktop)])]\<rparr>) \<and>
   (get body ''url'' = Inr url \<and> truthy url \<and> isValidUrl e url \<and>
    axios_get (compare_params e url ''desktop'') = Fulfilled data \<and>
    path data [''lighthouseResult'', ''categories'', ''performance'', ''score''] = Inr JNull \<and>
    settles_as (axios_get (compare_params e url ''mobile'')) mobile \<longrightarrow>
      sent (compare e axios_get body) =
        Inr \<lparr>res_status = 200, res_json = JObj
                [(''success'', JBool True),
                 (''url'', url),
                 (''timestamp'', JStr (now e)),
                 (''data'', JObj
                    [(''mobile'', reported mobile),
                     (''desktop'', JObj [(''score'', JNum (Num 0)), (''status'', JStr ''success'')])])]\<rparr>)"
proof (intro conjI impI)
  assume a: "calls (pagespeed e axios_get body) = [params] \<and> axios_get params = Fulfilled data \<and>
    path data [''lighthouseResult'', ''audits''] = Inr (JObj audits) \<and> complete_audits audits \<and>
    path data [''lighthouseResult'', ''categories'', ''performance'', ''score''] = Inr JNull"
  then obtain url strategy where n: "request_params e body = Next (url, strategy, params)"
    by (auto simp: calls_single)
  have z: "ToNumber e JNull = Inr (Num 0)" by simp
  from a extract_result_complete [of data audits JNull e "Num 0" url strategy] z
  obtain r where r: "extract_result e url strategy data = Inr r"
    and p: "get r ''performanceScore'' = Inr (JNum (Math_round (times_num (Num 0) (Num 100))))"
    by blast
  from a have f: "axios_get params = Fulfilled data" by simp
  from sent_fulfilled [where axios_get = axios_get, OF n f] r p
  show "\<exists>r. sent (pagespeed e axios_get body) =
              Inr \<lparr>res_status = 200, res_json = JObj
                     [(''success'', JBool True), (''data'', r)]\<rparr> \<and>
           get r ''performanceScore'' = Inr (JNum (Num 0))"
    by simp
next
  assume a: "get body ''url'' = Inr url \<and> truthy url \<and> isValidUrl e url \<and>
    axios_get (compare_params e url ''mobile'') = Fulfilled data \<and>
    path data [''lighthouseResult'', ''categories'', ''performance'', ''score''] = Inr JNull \<and>
    settles_as (axios_get (compare_params e url ''desktop'')) desktop"
  then have m: "settled_result e (axios_get (compare_params e url ''mobile'')) =
      Inr (JObj [(''score'', JNum (Num 0)), (''status'', JStr ''success'')])"
    using settled_result_score [of data JNull e "Num 0"] by simp
  from a have d: "settled_result e (axios_get (compare_params e url ''desktop'')) =
      Inr (reported desktop)"
    by (simp add: settled_result_settles)
  from a compare_valid [of body url e axios_get] m d
  show "sent (compare e axios_get body) =
        Inr \<lparr>res_status = 200, res_json = JObj
                [(''success'', JBool True),
                 (''url'', url),
                 (''timestamp'', JStr (now e)),
                 (''data'', JObj
                    [(''mobile'', JObj [(''score'', JNum (Num 0)), (''status'', JStr ''success'')]),
                     (''desktop'', reported desktop)])]\<rparr>"
    by simp
next
  assume a: "get body ''url'' = Inr url \<and> truthy url \<and> isValidUrl e url \<and>
    axios_get (compare_params e url ''desktop'') = Fulfilled data \<and>
    path data [''lighthouseResult'', ''categories'', ''performance'', ''score''] = Inr JNull \<and>
    settles_as (axios_get (compare_params e url ''mobile'')) mobile"
  then have d: "settled_result e (axios_get (compare_params e url ''desktop'')) =
      Inr (JObj [(''score'', JNum (Num 0)), (''status'', JStr ''success'')])"
    using settled_result_score [of data JNull e "Num 0"] by simp
  from a have m: "settled_result e (axios_get (compare_params e url ''mobile'')) =
      Inr (reported mobile)"
    by (simp add: settled_result_settles)
  from a compare_valid [of body url e axios_get] m d
  show "sent (compare e axios_get body) =
        Inr \<lparr>res_status = 200, res_json = JObj
                [(''success'', JBool True),
                 (''url'', url),
                 (''timestamp'', JStr (now e)),
                 (''data'', JObj
                    [(''mobile'', reported mobile),
                     (''desktop'', JObj [(''score'', JNum (Num 0)), (''status'', JStr ''success'')])])]\<rparr>"
    by simp
qed

theorem C10_witness_null_scores:
  "(\<exists>r. sent (pagespeed fixture (replies (sample_payload JNull sample_audits)) sample_body) =
          Inr \<lparr>res_status = 200, res_json = JObj
                 [(''success'', JBool True), (''data'', r)]\<rparr> \<and>
        get r ''performanceScore'' = Inr (JNum (Num 0))) \<and>
   sent (compare fixture (only_succeeds ''mobile'' (sample_payload JNull [])) sample_body) =
     Inr \<lparr>res_status = 200, res_json = JObj
             [(''success'', JBool True),
              (''url'', JStr ''https://example.com''),
              (''timestamp'', JStr ''2024-01-01T00:00:00.000Z''),
              (''data'', JObj
                 [(''mobile'', JObj [(''score'', JNum (Num 0)), (''status'', JStr ''success'')]),
                  (''desktop'', JObj [(''score'', JNull), (''status'', JStr ''failed''),
                     (''error'', JStr ''timeout of 30000ms exceeded'')])])]\<rparr> \<and>
   sent (compare fixture (only_succeeds ''desktop'' (sample_payload JNull [])) sample_body) =
     Inr \<lparr>res_status = 200, res_json = JObj
             [(''success'', JBool True),
              (''url'', JStr ''https://example.com''),
              (''timestamp'', JStr ''2024-01-01T00:00:00.000Z''),
              (''data'', JObj
                 [(''mobile'', JObj [(''score'', JNull), (''status'', JStr ''failed''),
                     (''error'', JStr ''timeout of 30000ms exceeded'')]),
                  (''desktop'', JObj [(''score'', JNum (Num 0)), (''status'', JStr ''success'')])])]\<rparr>"
proof -
  have c: "calls (pagespeed fixture (replies (sample_payload JNull sample_audits)) sample_body) =
      [JObj [(''url'', JStr ''https://example.com''), (''strategy'', JStr ''mobile''),
             (''category'', JStr ''performance'')]]"
    using sample_request by (auto simp: calls_single)
  have u: "get sample_body ''url'' = Inr (JStr ''https://example.com'')"
    "truthy (JStr ''https://example.com'')" "isValidUrl fixture (JStr ''https://example.com'')"
    by (simp_all add: sample_body_def isValidUrl_def)
  have s: "only_succeeds strategy data (compare_params fixture url strategy) = Fulfilled data"
    for strategy data url
    by (simp add: only_succeeds_def compare_params_def)
  have f: "settles_as (only_succeeds ''mobile'' data (compare_params fixture url ''desktop''))
        (Fails ''timeout of 30000ms exceeded'')"
      "settles_as (only_succeeds ''desktop'' data (compare_params fixture url ''mobile''))
        (Fails ''timeout of 30000ms exceeded'')"
    for data url
    by (simp_all add: only_succeeds_def compare_params_def timed_out_def)
  note t = C10_null_score_counts_as_zero
  from t [where e = fixture and axios_get = "replies (sample_payload JNull sample_audits)"
          and body = sample_body and data = "sample_payload JNull sample_audits"
          and audits = sample_audits] c sample_complete
  have 1: "\<exists>r. sent (pagespeed fixture (replies (sample_payload JNull sample_audits)) sample_body) =
          Inr \<lparr>res_status = 200, res_json = JObj
                 [(''success'', JBool True), (''data'', r)]\<rparr> \<and>
        get r ''performanceScore'' = Inr (JNum (Num 0))"
    by (simp add: replies_def sample_payload_def)
  from t [where e = fixture and axios_get = "only_succeeds ''mobile'' (sample_payload JNull [])"
          and body = sample_body and url = "JStr ''https://example.com''"
          and data = "sample_payload JNull []"
          and desktop = "Fails ''timeout of 30000ms exceeded''"] u s f
  have 2: "sent (compare fixture (only_succeeds ''mobile'' (sample_payload JNull [])) sample_body) =
     Inr \<lparr>res_status = 200, res_json = JObj
             [(''success'', JBool True),
              (''url'', JStr ''https://example.com''),
              (''timestamp'', JStr ''2024-01-01T00:00:00.000Z''),
              (''data'', JObj
                 [(''mobile'', JObj [(''score'', JNum (Num 0)), (''status'', JStr ''success'')]),
                  (''desktop'', JObj [(''score'', JNull), (''status'', JStr ''failed''),
                     (''error'', JStr ''timeout of 30000ms exceeded'')])])]\<rparr>"
    by (simp add: sample_payload_def)
  from t [where e = fixture and axios_get = "only_succeeds ''desktop'' (sample_payload JNull [])"
          and body = sample_body and url = "JStr ''https://example.com''"
          and data = "sample_payload JNull []"
          and mobile = "Fails ''timeout of 30000ms exceeded''"] u s f
  have 3: "sent (compare fixture (only_succeeds ''desktop'' (sample_payload JNull [])) sample_body) =
     Inr \<lparr>res_status = 200, res_json = JObj
             [(''success'', JBool True),
              (''url'', JStr ''https://example.com''),
              (''timestamp'', JStr ''2024-01-01T00:00:00.000Z''),
              (''data'', JObj
                 [(''mobile'', JObj [(''score'', JNull), (''status'', JStr ''failed''),
                     (''error'', JStr ''timeout of 30000ms exceeded'')]),
                  (''desktop'', JObj [(''score'', JNum (Num 0)), (''status'', JStr ''success'')])])]\<rparr>"
    by (simp add: sample_payload_def)
  from 1 2 3 show ?thesis by blast
qed

end
